theory Spec2Isabelle
  imports Complex_Main
begin

section \<open>Discovery scoring pipeline of the A and R portal\<close>

text \<open>
  A shallow embedding of \<^verbatim>\<open>app/core/discovery\<close>: the feature extractors, the weight
  configuration, the two scorers, the explainability engine and the two selectors,
  over the tables of \<^verbatim>\<open>app/models/discovery.py\<close>.

  Conventions of the embedding.
  \<^item> A Python \<^verbatim>\<open>datetime\<close> (naive UTC) is an \<open>int\<close>: microseconds since
    1970-01-01. \<^verbatim>\<open>timedelta(days=n)\<close> is \<open>n * 86400000000\<close>.
  \<^item> \<^verbatim>\<open>datetime.utcnow()\<close> is the parameter \<open>now\<close> of every function that reads
    the clock; a function passes its own \<open>now\<close> to the functions it calls.
  \<^item> A Python \<^verbatim>\<open>float\<close> is a \<open>real\<close>. The arithmetic of the features and of the
    scores is exact: its rounding error is not modelled. The tolerance test of
    \<^verbatim>\<open>validate_weights\<close> is modelled in binary64, with every operation rounded by
    \<open>fl\<close>. An \<^verbatim>\<open>Integer\<close> column is an \<open>int\<close>, a nullable one an
    \<open>int option\<close>.
  \<^item> A table is the list of its rows in insertion order; a session is the record of
    the tables. \<^verbatim>\<open>db.add(row); db.commit()\<close> appends the row.
  \<^item> An exception is the \<open>Inl\<close> of a sum type.
\<close>

subsection \<open>Dates\<close>

type_synonym datetime = int

definition timedelta :: "int \<Rightarrow> int" where
  "timedelta days = days * 86400000000"

text \<open>The \<^verbatim>\<open>.days\<close> attribute of a difference of two datetimes (floor division,
  as Python normalises a \<^verbatim>\<open>timedelta\<close>).\<close>

definition days_of :: "int \<Rightarrow> int" where
  "days_of delta = delta div 86400000000"

text \<open>\<^verbatim>\<open>(t.year, t.month)\<close> in the proleptic Gregorian calendar, from the number
  of days since 1970-01-01.\<close>

definition civil_year_month :: "int \<Rightarrow> int \<times> int" where
  "civil_year_month z0 =
     (let z = z0 + 719468;
          era = z div 146097;
          doe = z mod 146097;
          yoe = (doe - doe div 1460 + doe div 36524 - doe div 146096) div 365;
          doy = doe - (365 * yoe + yoe div 4 - yoe div 100);
          mp = (5 * doy + 2) div 153;
          m = (if mp < 10 then mp + 3 else mp - 9);
          y = yoe + era * 400 + (if m \<le> 2 then 1 else 0)
      in (y, m))"

definition month_key :: "datetime \<Rightarrow> int \<times> int" where
  "month_key t = civil_year_month (t div 86400000000)"

subsection \<open>Tables\<close>

text \<open>The columns the scoring pipeline reads or writes. \<open>id_track\<close> is the column
  \<^verbatim>\<open>Track.id\<close>; \<open>score_track_id\<close> is \<^verbatim>\<open>TrackScore.track_id\<close>.\<close>

record Track =
  id_track :: string
  title :: string
  artist_name :: string
  first_discovered :: datetime

record TrackMetric =
  track_id :: string
  timestamp :: datetime
  spotify_streams :: "int option"
  spotify_streams_7d :: "int option"
  spotify_playlist_count :: "int option"
  spotify_chart_position :: "int option"
  tiktok_posts_7d :: "int option"
  tiktok_views_7d :: "int option"
  tiktok_chart_position :: "int option"

record TrackScore =
  score_track_id :: string
  computed_at :: datetime
  trending_score :: "real option"
  evergreen_score :: "real option"
  components :: "(string \<times> real) list"
  why_selected :: "string list"
  risk_flags :: "string list"

record DiscoveryRun =
  run_type :: string
  started_at :: datetime
  completed_at :: "datetime option"
  tracks_processed :: int
  tracks_updated :: int
  status :: string
  error_message :: "string option"

record Session =
  tracks :: "Track list"
  track_metrics :: "TrackMetric list"
  track_scores :: "TrackScore list"
  discovery_runs :: "DiscoveryRun list"

subsection \<open>Queries\<close>

text \<open>\<^verbatim>\<open>query.order_by(col.desc()).first()\<close>: a row with the greatest key, \<open>None\<close> on
  an empty result. Among rows with equal keys the database's choice is not fixed; the
  model takes the one inserted first.\<close>

fun first_desc :: "('a \<Rightarrow> int) \<Rightarrow> 'a list \<Rightarrow> 'a option" where
  "first_desc key [] = None"
| "first_desc key (x # xs) =
     (case first_desc key xs of
        None \<Rightarrow> Some x
      | Some y \<Rightarrow> if key x < key y then Some y else Some x)"

text \<open>\<^verbatim>\<open>query.first()\<close> with no ordering: the first row of the result.\<close>

fun first_row :: "'a list \<Rightarrow> 'a option" where
  "first_row [] = None"
| "first_row (x # xs) = Some x"

text \<open>Python truthiness of a nullable integer: \<^verbatim>\<open>None\<close> and \<^verbatim>\<open>0\<close> are false.\<close>

fun truthy :: "int option \<Rightarrow> bool" where
  "truthy None = False"
| "truthy (Some n) = (n \<noteq> 0)"

text \<open>The value of a nullable integer that the code has already found truthy.\<close>

fun int_value :: "int option \<Rightarrow> int" where
  "int_value None = 0"
| "int_value (Some n) = n"

text \<open>The two snapshot queries every velocity extractor makes: the latest metric of the
  last \<open>short_period\<close> days, and the latest metric of the window from \<open>long_period\<close>
  days ago to \<open>short_period\<close> days ago.\<close>

definition recent_metric :: "datetime \<Rightarrow> string \<Rightarrow> Session \<Rightarrow> int \<Rightarrow> TrackMetric option" where
  "recent_metric now tid db short_period =
     first_desc timestamp
       (filter (\<lambda>m. track_id m = tid \<and> now - timedelta short_period \<le> timestamp m)
          (track_metrics db))"

definition baseline_metric ::
  "datetime \<Rightarrow> string \<Rightarrow> Session \<Rightarrow> int \<Rightarrow> int \<Rightarrow> TrackMetric option" where
  "baseline_metric now tid db short_period long_period =
     first_desc timestamp
       (filter (\<lambda>m. track_id m = tid \<and> now - timedelta long_period \<le> timestamp m
                    \<and> timestamp m < now - timedelta short_period)
          (track_metrics db))"

subsection \<open>TikTok features\<close>

text \<open>The body shared by the velocity extractors once both snapshots are fetched, written
  as in the source: the truthiness test, the zero-baseline branch with its cap, the
  ratio.\<close>

definition velocity_of :: "real \<Rightarrow> int option \<Rightarrow> int option \<Rightarrow> real" where
  "velocity_of cap r b =
     (if \<not> truthy r \<or> \<not> truthy b then 0
      else if int_value b = 0 then (if int_value r > 0 then cap else 0)
      else real_of_int (int_value r) / real_of_int (int_value b))"

definition calculate_posts_velocity :: "datetime \<Rightarrow> string \<Rightarrow> Session \<Rightarrow> int \<Rightarrow> int \<Rightarrow> real" where
  "calculate_posts_velocity now tid db short_period long_period =
     (case recent_metric now tid db short_period of
        None \<Rightarrow> 0
      | Some recent \<Rightarrow>
          (case baseline_metric now tid db short_period long_period of
             None \<Rightarrow> 0
           | Some baseline \<Rightarrow> velocity_of 10 (tiktok_posts_7d recent) (tiktok_posts_7d baseline)))"

definition calculate_views_velocity :: "datetime \<Rightarrow> string \<Rightarrow> Session \<Rightarrow> int \<Rightarrow> int \<Rightarrow> real" where
  "calculate_views_velocity now tid db short_period long_period =
     (case recent_metric now tid db short_period of
        None \<Rightarrow> 0
      | Some recent \<Rightarrow>
          (case baseline_metric now tid db short_period long_period of
             None \<Rightarrow> 0
           | Some baseline \<Rightarrow> velocity_of 10 (tiktok_views_7d recent) (tiktok_views_7d baseline)))"

definition has_tiktok_momentum :: "datetime \<Rightarrow> string \<Rightarrow> Session \<Rightarrow> int \<Rightarrow> bool" where
  "has_tiktok_momentum now tid db threshold_posts_7d =
     (case recent_metric now tid db 7 of
        None \<Rightarrow> False
      | Some recent \<Rightarrow>
          (if \<not> truthy (tiktok_posts_7d recent) then False
           else threshold_posts_7d \<le> int_value (tiktok_posts_7d recent)))"

text \<open>One platform's half of the cross-platform check: \<^verbatim>\<open>growing = False\<close>, set
  only under the two nested tests.\<close>

definition growing :: "int option \<Rightarrow> int option \<Rightarrow> bool" where
  "growing r b =
     (if truthy r \<and> truthy b
      then (if int_value b > 0 then int_value b < int_value r else False)
      else False)"

definition calculate_cross_platform_confirmation :: "datetime \<Rightarrow> string \<Rightarrow> Session \<Rightarrow> bool" where
  "calculate_cross_platform_confirmation now tid db =
     (case recent_metric now tid db 7 of
        None \<Rightarrow> False
      | Some recent \<Rightarrow>
          (case baseline_metric now tid db 7 30 of
             None \<Rightarrow> False
           | Some baseline \<Rightarrow>
               growing (tiktok_posts_7d recent) (tiktok_posts_7d baseline)
               \<and> growing (spotify_streams_7d recent) (spotify_streams_7d baseline)))"

definition has_chart_entry :: "datetime \<Rightarrow> string \<Rightarrow> Session \<Rightarrow> int \<Rightarrow> bool" where
  "has_chart_entry now tid db lookback_days =
     (first_row
        (filter (\<lambda>m. track_id m = tid \<and> now - timedelta lookback_days \<le> timestamp m
                     \<and> tiktok_chart_position m \<noteq> None)
           (track_metrics db)) \<noteq> None)"

subsection \<open>Spotify features\<close>

text \<open>The exceptions of the pipeline: the division by zero, and \<open>Unhandled\<close> with its
  message for an exception of any other origin (the store, a caller's callback).\<close>

datatype error = ZeroDivisionError | Unhandled string

text \<open>\<^verbatim>\<open>np.mean\<close> and \<^verbatim>\<open>np.std\<close> (the population standard deviation) of a list of
  integers. \<^verbatim>\<open>np.mean([])\<close> does not raise: it is \<^verbatim>\<open>nan\<close>, here \<open>None\<close>, and every
  comparison with \<^verbatim>\<open>nan\<close> is false.\<close>

definition mean :: "int list \<Rightarrow> real" where
  "mean xs = real_of_int (sum_list xs) / real (length xs)"

definition std :: "int list \<Rightarrow> real" where
  "std xs = sqrt ((\<Sum>x\<leftarrow>xs. (real_of_int x - mean xs)\<^sup>2) / real (length xs))"

definition np_mean :: "int list \<Rightarrow> real option" where
  "np_mean xs = (if xs = [] then None else Some (mean xs))"

text \<open>The rows \<^verbatim>\<open>calculate_stream_consistency\<close> fetches (those of the window with a
  non-null \<^verbatim>\<open>spotify_streams\<close>, by timestamp), and the values it keeps (the truthy
  ones).\<close>

definition consistency_metrics :: "datetime \<Rightarrow> string \<Rightarrow> Session \<Rightarrow> int \<Rightarrow> TrackMetric list" where
  "consistency_metrics now tid db lookback_days =
     sort_key timestamp
       (filter (\<lambda>m. track_id m = tid \<and> now - timedelta lookback_days \<le> timestamp m
                    \<and> spotify_streams m \<noteq> None)
          (track_metrics db))"

definition truthy_streams :: "TrackMetric list \<Rightarrow> int list" where
  "truthy_streams metrics =
     map (\<lambda>m. int_value (spotify_streams m)) (filter (\<lambda>m. truthy (spotify_streams m)) metrics)"

definition calculate_stream_consistency :: "datetime \<Rightarrow> string \<Rightarrow> Session \<Rightarrow> int \<Rightarrow> real" where
  "calculate_stream_consistency now tid db lookback_days =
     (let metrics = consistency_metrics now tid db lookback_days in
      if length metrics < 30 then 0
      else
        (let streams = truthy_streams metrics in
         if streams = [] \<or> Max (set streams) = 0 then 0
         else
           (let mean_streams = mean streams; std_streams = std streams in
            if mean_streams = 0 then 0
            else
              (let cv = std_streams / mean_streams;
                   consistency_score = max 0 (1 - cv)
               in min 1 consistency_score))))"

definition calculate_stream_growth :: "datetime \<Rightarrow> string \<Rightarrow> Session \<Rightarrow> int \<Rightarrow> int \<Rightarrow> real" where
  "calculate_stream_growth now tid db short_period long_period =
     (case recent_metric now tid db short_period of
        None \<Rightarrow> 0
      | Some recent \<Rightarrow>
          (case baseline_metric now tid db short_period long_period of
             None \<Rightarrow> 0
           | Some baseline \<Rightarrow>
               velocity_of 10 (spotify_streams_7d recent) (spotify_streams_7d baseline)))"

text \<open>\<^verbatim>\<open>lookback_days / 30\<close> is a float division; \<^verbatim>\<open>len(active_months) / 0.0\<close>
  raises \<^verbatim>\<open>ZeroDivisionError\<close>.\<close>

definition calculate_active_months_ratio ::
  "datetime \<Rightarrow> string \<Rightarrow> Session \<Rightarrow> int \<Rightarrow> error + real" where
  "calculate_active_months_ratio now tid db lookback_days =
     (let metrics =
            filter (\<lambda>m. track_id m = tid \<and> now - timedelta lookback_days \<le> timestamp m
                        \<and> spotify_streams m \<noteq> None \<and> 0 < int_value (spotify_streams m))
              (track_metrics db)
      in if metrics = [] then Inr 0
         else
           (let active_months = remdups (map (\<lambda>m. month_key (timestamp m)) metrics);
                expected_months = real_of_int lookback_days / 30
            in if expected_months = 0 then Inl ZeroDivisionError
               else Inr (min 1 (real (length active_months) / expected_months))))"

definition calculate_playlist_growth :: "datetime \<Rightarrow> string \<Rightarrow> Session \<Rightarrow> int \<Rightarrow> real" where
  "calculate_playlist_growth now tid db period =
     (case recent_metric now tid db 7 of
        None \<Rightarrow> 0
      | Some recent \<Rightarrow>
          (case baseline_metric now tid db 7 period of
             None \<Rightarrow> 0
           | Some baseline \<Rightarrow>
               velocity_of 5 (spotify_playlist_count recent) (spotify_playlist_count baseline)))"

definition has_chart_presence :: "datetime \<Rightarrow> string \<Rightarrow> Session \<Rightarrow> int \<Rightarrow> bool" where
  "has_chart_presence now tid db lookback_days =
     (first_row
        (filter (\<lambda>m. track_id m = tid \<and> now - timedelta lookback_days \<le> timestamp m
                     \<and> spotify_chart_position m \<noteq> None)
           (track_metrics db)) \<noteq> None)"

subsection \<open>Temporal features\<close>

definition get_track_age_days :: "datetime \<Rightarrow> Track \<Rightarrow> int" where
  "get_track_age_days now track = days_of (now - first_discovered track)"

definition is_new_discovery :: "datetime \<Rightarrow> Track \<Rightarrow> int \<Rightarrow> bool" where
  "is_new_discovery now track threshold_days = (get_track_age_days now track \<le> threshold_days)"

definition calculate_recency_score :: "datetime \<Rightarrow> string \<Rightarrow> Session \<Rightarrow> real" where
  "calculate_recency_score now tid db =
     (case first_desc timestamp (filter (\<lambda>m. track_id m = tid) (track_metrics db)) of
        None \<Rightarrow> 0
      | Some latest \<Rightarrow>
          (let days_old = days_of (now - timestamp latest) in
           if days_old \<le> 1 then 1
           else if days_old \<le> 7 then 9 / 10
           else if days_old \<le> 30 then 5 / 10
           else if days_old \<le> 60 then 2 / 10
           else 0))"

definition get_data_points_count :: "datetime \<Rightarrow> string \<Rightarrow> Session \<Rightarrow> int \<Rightarrow> int" where
  "get_data_points_count now tid db lookback_days =
     int (length (filter (\<lambda>m. track_id m = tid \<and> now - timedelta lookback_days \<le> timestamp m)
                    (track_metrics db)))"

subsection \<open>Binary floating point\<close>

text \<open>Rounding to the nearest integer, ties to even.\<close>

definition round_half_even :: "real \<Rightarrow> int" where
  "round_half_even x =
     (let f = \<lfloor>x\<rfloor>; d = x - of_int f in
      if d < 1 / 2 then f else if 1 / 2 < d then f + 1 else if even f then f else f + 1)"




subsection \<open>Weight configuration\<close>

definition TRENDING_WEIGHTS :: "(string \<times> real) list" where
  "TRENDING_WEIGHTS =
     [(''tiktok_posts_velocity'', 30 / 100),
      (''tiktok_views_velocity'', 20 / 100),
      (''spotify_stream_growth'', 20 / 100),
      (''playlist_growth'', 15 / 100),
      (''cross_platform_boost'', 10 / 100),
      (''chart_entry_bonus'', 5 / 100)]"

definition EVERGREEN_WEIGHTS :: "(string \<times> real) list" where
  "EVERGREEN_WEIGHTS =
     [(''stream_consistency'', 40 / 100),
      (''active_months_ratio'', 30 / 100),
      (''low_variance_bonus'', 20 / 100),
      (''chart_persistence'', 10 / 100)]"

text \<open>\<^verbatim>\<open>MIN_THRESHOLDS\<close> and \<^verbatim>\<open>NORMALIZATION\<close>, one constant per key.\<close>

definition trending_min_tiktok_posts_7d :: int where "trending_min_tiktok_posts_7d = 50"
definition trending_min_spotify_streams_7d :: int where "trending_min_spotify_streams_7d = 10000"
definition trending_min_data_points :: int where "trending_min_data_points = 7"
definition evergreen_min_active_months :: int where "evergreen_min_active_months = 6"
definition evergreen_min_data_points :: int where "evergreen_min_data_points = 90"
definition evergreen_min_avg_streams :: int where "evergreen_min_avg_streams = 5000"
definition max_velocity :: real where "max_velocity = 10"
definition min_velocity :: real where "min_velocity = 1"




subsection \<open>Trending scorer\<close>

definition normalize_velocity :: "real \<Rightarrow> real" where
  "normalize_velocity velocity =
     (let min_vel = min_velocity; max_vel = max_velocity in
      if velocity \<le> min_vel then 0
      else if velocity \<ge> max_vel then 1
      else (velocity - min_vel) / (max_vel - min_vel))"

text \<open>\<^verbatim>\<open>components.get(feature, default)\<close> on a dictionary kept as an association
  list in insertion order.\<close>

definition dict_get :: "(string \<times> real) list \<Rightarrow> string \<Rightarrow> real \<Rightarrow> real" where
  "dict_get d k dflt = (case map_of d k of None \<Rightarrow> dflt | Some v \<Rightarrow> v)"

text \<open>The loop \<^verbatim>\<open>for feature, weight in W.items(): total_score += ...\<close>, from
  \<^verbatim>\<open>total_score = 0.0\<close>.\<close>

definition weighted_sum :: "(string \<times> real) list \<Rightarrow> (string \<times> real) list \<Rightarrow> real" where
  "weighted_sum W comps =
     foldl (\<lambda>total_score (feature, weight). total_score + dict_get comps feature 0 * weight) 0 W"

definition TrendingScorer_check_thresholds :: "datetime \<Rightarrow> string \<Rightarrow> Session \<Rightarrow> bool" where
  "TrendingScorer_check_thresholds now tid db =
     (case recent_metric now tid db 7 of
        None \<Rightarrow> False
      | Some recent \<Rightarrow>
          if truthy (tiktok_posts_7d recent)
             \<and> int_value (tiktok_posts_7d recent) < trending_min_tiktok_posts_7d then False
          else if truthy (spotify_streams_7d recent)
             \<and> int_value (spotify_streams_7d recent) < trending_min_spotify_streams_7d then False
          else if get_data_points_count now tid db 30 < trending_min_data_points then False
          else True)"

definition trending_components :: "datetime \<Rightarrow> string \<Rightarrow> Session \<Rightarrow> (string \<times> real) list" where
  "trending_components now tid db =
     [(''tiktok_posts_velocity'', normalize_velocity (calculate_posts_velocity now tid db 7 30)),
      (''tiktok_views_velocity'', normalize_velocity (calculate_views_velocity now tid db 7 30)),
      (''spotify_stream_growth'', normalize_velocity (calculate_stream_growth now tid db 7 30)),
      (''playlist_growth'', normalize_velocity (calculate_playlist_growth now tid db 30)),
      (''cross_platform_boost'',
         if calculate_cross_platform_confirmation now tid db then 1 else 0),
      (''chart_entry_bonus'',
         if has_chart_entry now tid db 30 \<or> has_chart_presence now tid db 30 then 1 else 0)]"

text \<open>\<^verbatim>\<open>calculate_score\<close> reads the module-level table \<^verbatim>\<open>TRENDING_WEIGHTS\<close>; the
  table is the parameter \<open>W\<close> of \<open>TrendingScorer_calculate_score_of\<close>.\<close>

definition TrendingScorer_calculate_score_of ::
  "(string \<times> real) list \<Rightarrow> datetime \<Rightarrow> Track \<Rightarrow> string \<Rightarrow> Session
   \<Rightarrow> real \<times> (string \<times> real) list \<times> bool" where
  "TrendingScorer_calculate_score_of W now track tid db =
     (let comps = trending_components now tid db;
          total_score = weighted_sum W comps * 100;
          passes_threshold = TrendingScorer_check_thresholds now tid db
      in (total_score, comps, passes_threshold))"

definition TrendingScorer_calculate_score ::
  "datetime \<Rightarrow> Track \<Rightarrow> string \<Rightarrow> Session \<Rightarrow> real \<times> (string \<times> real) list \<times> bool" where
  "TrendingScorer_calculate_score = TrendingScorer_calculate_score_of TRENDING_WEIGHTS"

subsection \<open>Evergreen scorer\<close>

definition EvergreenScorer_check_thresholds :: "datetime \<Rightarrow> string \<Rightarrow> Session \<Rightarrow> error + bool" where
  "EvergreenScorer_check_thresholds now tid db =
     (if get_data_points_count now tid db 365 < evergreen_min_data_points then Inr False
      else
        (case calculate_active_months_ratio now tid db 365 of
           Inl e \<Rightarrow> Inl e
         | Inr active_ratio \<Rightarrow>
             if active_ratio < real_of_int evergreen_min_active_months / 12 then Inr False
             else
               (let metrics =
                      filter (\<lambda>m. track_id m = tid \<and> now - timedelta 180 \<le> timestamp m
                                  \<and> spotify_streams m \<noteq> None)
                        (track_metrics db)
                in if metrics \<noteq> [] then
                     (case np_mean (truthy_streams metrics) of
                        None \<Rightarrow> Inr True
                      | Some avg_streams \<Rightarrow>
                          if avg_streams < real_of_int evergreen_min_avg_streams then Inr False
                          else Inr True)
                   else Inr False)))"

definition low_variance_bonus :: "real \<Rightarrow> real" where
  "low_variance_bonus consistency =
     (if consistency > 8 / 10 then 1 else if consistency > 6 / 10 then 5 / 10 else 0)"

definition EvergreenScorer_calculate_score_of ::
  "(string \<times> real) list \<Rightarrow> datetime \<Rightarrow> Track \<Rightarrow> string \<Rightarrow> Session
   \<Rightarrow> error + real \<times> (string \<times> real) list \<times> bool" where
  "EvergreenScorer_calculate_score_of W now track tid db =
     (let consistency = calculate_stream_consistency now tid db 180 in
      case calculate_active_months_ratio now tid db 365 of
        Inl e \<Rightarrow> Inl e
      | Inr active_ratio \<Rightarrow>
          (let comps =
                 [(''stream_consistency'', consistency),
                  (''active_months_ratio'', active_ratio),
                  (''low_variance_bonus'', low_variance_bonus consistency),
                  (''chart_persistence'', if has_chart_presence now tid db 180 then 1 else 0)];
               total_score = weighted_sum W comps * 100
           in case EvergreenScorer_check_thresholds now tid db of
                Inl e \<Rightarrow> Inl e
              | Inr passes_threshold \<Rightarrow> Inr (total_score, comps, passes_threshold)))"

definition EvergreenScorer_calculate_score ::
  "datetime \<Rightarrow> Track \<Rightarrow> string \<Rightarrow> Session \<Rightarrow> error + real \<times> (string \<times> real) list \<times> bool" where
  "EvergreenScorer_calculate_score = EvergreenScorer_calculate_score_of EVERGREEN_WEIGHTS"


subsection \<open>Explainability engine\<close>

text \<open>Python's \<^verbatim>\<open>round(x, n)\<close> and the formats \<^verbatim>\<open>{x:.1f}\<close>, \<^verbatim>\<open>{x:.2f}\<close> and
  \<^verbatim>\<open>{k}\<close>: rounding to the nearest, ties to even (\<open>round_half_even\<close>), of the
  real number.\<close>

definition py_round :: "real \<Rightarrow> nat \<Rightarrow> real" where
  "py_round x n = of_int (round_half_even (x * 10 ^ n)) / 10 ^ n"

definition digit_char :: "nat \<Rightarrow> char" where
  "digit_char d = ''0123456789'' ! d"

fun str_nat :: "nat \<Rightarrow> string" where
  "str_nat n = (if n < 10 then [digit_char n] else str_nat (n div 10) @ [digit_char (n mod 10)])"

declare str_nat.simps [simp del]

definition str_int :: "int \<Rightarrow> string" where
  "str_int k = (if k < 0 then ''-'' @ str_nat (nat (- k)) else str_nat (nat k))"

definition format_f :: "nat \<Rightarrow> real \<Rightarrow> string" where
  "format_f n x =
     (let k = nat \<bar>round_half_even (x * 10 ^ n)\<bar>;
          frac = str_nat (k mod 10 ^ n)
      in (if x < 0 then ''-'' else []) @ str_nat (k div 10 ^ n) @ ''.''
         @ replicate (n - length frac) CHR ''0'' @ frac)"

text \<open>The result dictionary \<^verbatim>\<open>{"why_selected": ..., "risk_flags": ...}\<close> is the pair
  of the two lists.\<close>

definition explain_trending ::
  "datetime \<Rightarrow> Track \<Rightarrow> string \<Rightarrow> (string \<times> real) list \<Rightarrow> Session \<Rightarrow> string list \<times> string list" where
  "explain_trending now track tid comps db =
     (let why =
            (if dict_get comps ''tiktok_posts_velocity'' 0 > 5 / 10
             then [''TikTok posts growing '' @ format_f 1 (calculate_posts_velocity now tid db 7 30)
                   @ ''x (7d vs 30d)'']
             else [])
          @ (if dict_get comps ''tiktok_views_velocity'' 0 > 5 / 10
             then [''TikTok views accelerating ''
                   @ format_f 1 (calculate_views_velocity now tid db 7 30) @ ''x'']
             else [])
          @ (if dict_get comps ''spotify_stream_growth'' 0 > 5 / 10
             then [''Spotify streams up '' @ format_f 1 (calculate_stream_growth now tid db 7 30)
                   @ ''x in past week'']
             else [])
          @ (if dict_get comps ''playlist_growth'' 0 > 5 / 10
             then [''Adding to Spotify playlists rapidly''] else [])
          @ (if dict_get comps ''cross_platform_boost'' 0 = 1
             then [''Growing on BOTH TikTok and Spotify (high confidence)''] else [])
          @ (if dict_get comps ''chart_entry_bonus'' 0 = 1
             then [''Appeared on TikTok or Spotify charts''] else []);
          track_age = get_track_age_days now track;
          data_points = get_data_points_count now tid db 30;
          risk =
            (if dict_get comps ''cross_platform_boost'' 0 = 1 then []
             else [''Single-platform growth only (may not translate)''])
          @ (if track_age < 7
             then [''Very new to system ('' @ str_int track_age @ '' days) - limited data'']
             else [])
          @ (if data_points < 15
             then [''Limited historical data ('' @ str_int data_points @ '' points)'']
             else [])
          @ (case recent_metric now tid db 7 of
               None \<Rightarrow> []
             | Some recent \<Rightarrow>
                 (if \<not> truthy (tiktok_posts_7d recent) \<or> int_value (tiktok_posts_7d recent) < 50
                  then [''Low/no TikTok presence''] else [])
                 @ (if \<not> truthy (spotify_streams_7d recent)
                       \<or> int_value (spotify_streams_7d recent) < 10000
                    then [''Low Spotify streams''] else []))
      in (why, risk))"

text \<open>\<^verbatim>\<open>int(active_ratio * 12)\<close> truncates towards zero.\<close>

definition py_int :: "real \<Rightarrow> int" where
  "py_int x = (if 0 \<le> x then \<lfloor>x\<rfloor> else \<lceil>x\<rceil>)"

definition explain_evergreen ::
  "datetime \<Rightarrow> Track \<Rightarrow> string \<Rightarrow> (string \<times> real) list \<Rightarrow> Session \<Rightarrow> string list \<times> string list" where
  "explain_evergreen now track tid comps db =
     (let consistency = dict_get comps ''stream_consistency'' 0;
          active_ratio = dict_get comps ''active_months_ratio'' 0;
          track_age = get_track_age_days now track;
          data_points = get_data_points_count now tid db 365;
          growth = calculate_stream_growth now tid db 7 30;
          why =
            (if consistency > 8 / 10
             then [''Extremely consistent streams (CV score: '' @ format_f 2 consistency @ '')'']
             else if consistency > 6 / 10
             then [''Stable streaming pattern (CV score: '' @ format_f 2 consistency @ '')'']
             else [])
          @ (if active_ratio > 9 / 10
             then [''Active '' @ str_int (py_int (active_ratio * 12)) @ ''/12 months in past year'']
             else if active_ratio > 7 / 10
             then [''Consistent presence ('' @ str_int (py_int (active_ratio * 12))
                   @ ''/12 months active)'']
             else [])
          @ (if dict_get comps ''low_variance_bonus'' 0 = 1
             then [''Very low variance - highly predictable cashflow''] else [])
          @ (if dict_get comps ''chart_persistence'' 0 = 1
             then [''Long-term chart presence (180+ days)''] else []);
          risk =
            (if consistency > 6 / 10 then []
             else [''Some variance in streams (CV score: '' @ format_f 2 consistency @ '')''])
          @ (if active_ratio > 7 / 10 then [] else [''Gaps in streaming activity''])
          @ (if track_age < 180
             then [''Relatively new ('' @ str_int track_age @ '' days) - evergreen status unproven'']
             else [])
          @ (if data_points < 180
             then [''Limited long-term data ('' @ str_int data_points @ '' points)'']
             else [])
          @ (if growth > 3 then [''Currently experiencing viral growth - may destabilize'']
             else if growth < 7 / 10 then [''Declining streams - may be losing evergreen status'']
             else [])
      in (why, risk))"


subsection \<open>Selectors\<close>


text \<open>\<^verbatim>\<open>{k: round(v, n) for k, v in components.items()}\<close>.\<close>

definition round_components :: "nat \<Rightarrow> (string \<times> real) list \<Rightarrow> (string \<times> real) list" where
  "round_components n comps = map (\<lambda>(k, v). (k, py_round v n)) comps"

text \<open>\<^verbatim>\<open>xs.sort(key=..., reverse=True)\<close> is stable: equal keys keep their order.\<close>

definition sort_desc :: "('a \<Rightarrow> real) \<Rightarrow> 'a list \<Rightarrow> 'a list" where
  "sort_desc key xs = sort_key (\<lambda>x. - key x) xs"








text \<open>\<^verbatim>\<open>score_and_persist\<close>: \<open>None\<close> and the session unchanged when the gate fails,
  the new row and the session with the row appended otherwise.\<close>

definition TrendingSelector_score_and_persist ::
  "datetime \<Rightarrow> Track \<Rightarrow> string \<Rightarrow> Session \<Rightarrow> TrackScore option \<times> Session" where
  "TrendingSelector_score_and_persist now track tid db =
     (case TrendingScorer_calculate_score now track tid db of
        (score, comps, passes_threshold) \<Rightarrow>
          if \<not> passes_threshold then (None, db)
          else
            (let explanation = explain_trending now track tid comps db;
                 track_score =
                   \<lparr>score_track_id = tid,
                    computed_at = now,
                    trending_score = Some score,
                    evergreen_score = None,
                    components = round_components 4 comps,
                    why_selected = fst explanation,
                    risk_flags = snd explanation\<rparr>
             in (Some track_score, db\<lparr>track_scores := track_scores db @ [track_score]\<rparr>)))"

text \<open>Python truthiness of a nullable float: \<^verbatim>\<open>None\<close> and \<^verbatim>\<open>0.0\<close> are false.\<close>

fun truthy_float :: "real option \<Rightarrow> bool" where
  "truthy_float None = False"
| "truthy_float (Some x) = (x \<noteq> 0)"

definition EvergreenSelector_score_and_persist ::
  "datetime \<Rightarrow> Track \<Rightarrow> string \<Rightarrow> Session \<Rightarrow> error + TrackScore option \<times> Session" where
  "EvergreenSelector_score_and_persist now track tid db =
     (case EvergreenScorer_calculate_score now track tid db of
        Inl e \<Rightarrow> Inl e
      | Inr (score, comps, passes_threshold) \<Rightarrow>
          if \<not> passes_threshold then Inr (None, db)
          else
            (let explanation = explain_evergreen now track tid comps db;
                 existing_score =
                   first_desc computed_at
                     (filter (\<lambda>s. score_track_id s = tid) (track_scores db));
                 track_score =
                   \<lparr>score_track_id = tid,
                    computed_at = now,
                    trending_score = None,
                    evergreen_score = Some score,
                    components = round_components 4 comps,
                    why_selected = fst explanation,
                    risk_flags = snd explanation\<rparr>;
                 track_score =
                   (case existing_score of
                      None \<Rightarrow> track_score
                    | Some existing \<Rightarrow>
                        if truthy_float (trending_score existing)
                        then track_score\<lparr>trending_score := trending_score existing\<rparr>
                        else track_score)
             in Inr (Some track_score, db\<lparr>track_scores := track_scores db @ [track_score]\<rparr>)))"

subsection \<open>Batch runs\<close>

text \<open>\<^verbatim>\<open>str(e)\<close> of an exception.\<close>

fun str_error :: "error \<Rightarrow> string" where
  "str_error ZeroDivisionError = ''float division by zero''"
| "str_error (Unhandled msg) = msg"

text \<open>The body of \<^verbatim>\<open>try\<close>: the loop over the ids with its two counters. The two
  selectors differ in the \<^verbatim>\<open>score_and_persist\<close> they call, here the parameter \<open>sp\<close>,
  which returns \<open>Inl\<close> for an exception of any origin. An exception leaves the loop
  with the session as the last completed call left it.\<close>

fun batch_loop ::
  "(Track \<Rightarrow> string \<Rightarrow> Session \<Rightarrow> error + TrackScore option \<times> Session)
   \<Rightarrow> string list \<Rightarrow> Session \<Rightarrow> int \<Rightarrow> int \<Rightarrow> error \<times> Session + int \<times> int \<times> Session" where
  "batch_loop sp [] db processed scored = Inr (processed, scored, db)"
| "batch_loop sp (tid # rest) db processed scored =
     (case first_row (filter (\<lambda>t. id_track t = tid) (tracks db)) of
        None \<Rightarrow> batch_loop sp rest db processed scored
      | Some track \<Rightarrow>
          (case sp track tid db of
             Inl e \<Rightarrow> Inl (e, db)
           | Inr (score, db') \<Rightarrow>
               batch_loop sp rest db' (processed + 1)
                 (if score \<noteq> None then scored + 1 else scored)))"

text \<open>The audit record as \<^verbatim>\<open>db.add(run); db.commit()\<close> stores it: the column
  defaults fill \<^verbatim>\<open>tracks_processed\<close> and \<^verbatim>\<open>tracks_updated\<close> with 0.\<close>

definition new_run :: "string \<Rightarrow> datetime \<Rightarrow> DiscoveryRun" where
  "new_run rtype now =
     \<lparr>run_type = rtype, started_at = now, completed_at = None, tracks_processed = 0,
      tracks_updated = 0, status = ''running'', error_message = None\<rparr>"

definition begin_run :: "string \<Rightarrow> datetime \<Rightarrow> Session \<Rightarrow> Session" where
  "begin_run rtype now db = db\<lparr>discovery_runs := discovery_runs db @ [new_run rtype now]\<rparr>"

text \<open>The final \<^verbatim>\<open>db.commit()\<close> writes the changed attributes of the run to its row,
  the one \<open>begin_run\<close> appended to the table of \<open>db0\<close>.\<close>

definition commit_run :: "Session \<Rightarrow> DiscoveryRun \<Rightarrow> Session \<Rightarrow> Session" where
  "commit_run db0 run db =
     db\<lparr>discovery_runs := (discovery_runs db)[length (discovery_runs db0) := run]\<rparr>"

definition run_discovery_batch_of ::
  "string \<Rightarrow> (Track \<Rightarrow> string \<Rightarrow> Session \<Rightarrow> error + TrackScore option \<times> Session)
   \<Rightarrow> datetime \<Rightarrow> Session \<Rightarrow> string list \<Rightarrow> DiscoveryRun \<times> Session" where
  "run_discovery_batch_of rtype sp now db track_ids =
     (case batch_loop sp track_ids (begin_run rtype now db) 0 0 of
        Inr (processed, scored, db') \<Rightarrow>
          (let run = (new_run rtype now)
                 \<lparr>completed_at := Some now, status := ''completed'',
                  tracks_processed := processed, tracks_updated := scored\<rparr>
           in (run, commit_run db run db'))
      | Inl (e, db') \<Rightarrow>
          (let run = (new_run rtype now)\<lparr>status := ''failed'', error_message := Some (str_error e)\<rparr>
           in (run, commit_run db run db')))"

definition TrendingSelector_run_discovery_batch ::
  "datetime \<Rightarrow> Session \<Rightarrow> string list \<Rightarrow> DiscoveryRun \<times> Session" where
  "TrendingSelector_run_discovery_batch now db track_ids =
     run_discovery_batch_of ''trending''
       (\<lambda>track tid d. Inr (TrendingSelector_score_and_persist now track tid d)) now db track_ids"

definition EvergreenSelector_run_discovery_batch ::
  "datetime \<Rightarrow> Session \<Rightarrow> string list \<Rightarrow> DiscoveryRun \<times> Session" where
  "EvergreenSelector_run_discovery_batch now db track_ids =
     run_discovery_batch_of ''evergreen'' (EvergreenSelector_score_and_persist now) now db track_ids"

section \<open>Example sessions\<close>

text \<open>Concrete sessions on which the theorems below are instantiated. \<open>day n\<close> is
  midnight of the \<open>n\<close>-th day after the epoch; the examples read the clock at
  \<open>day 100\<close>.\<close>

definition day :: "int \<Rightarrow> datetime" where
  "day n = timedelta n"

definition metric_row :: "string \<Rightarrow> datetime \<Rightarrow> int option \<Rightarrow> int option \<Rightarrow> TrackMetric" where
  "metric_row tid t posts streams =
     \<lparr>track_id = tid, timestamp = t, spotify_streams = None, spotify_streams_7d = streams,
      spotify_playlist_count = None, spotify_chart_position = None,
      tiktok_posts_7d = posts, tiktok_views_7d = None, tiktok_chart_position = None\<rparr>"

definition track1 :: Track where
  "track1 =
     \<lparr>id_track = ''t1'', title = ''Song'', artist_name = ''Artist'', first_discovered = day 95\<rparr>"

text \<open>A baseline snapshot with zero posts and zero streams, a recent one with 120 posts
  and 500 streams.\<close>

definition db_zero :: Session where
  "db_zero =
     \<lparr>tracks = [track1],
      track_metrics =
        [metric_row ''t1'' (day 80) (Some 0) (Some 0),
         metric_row ''t1'' (day 98) (Some 120) (Some 500)],
      track_scores = [], discovery_runs = []\<rparr>"

text \<open>TikTok posts from 20 to 200 between the baseline and the recent snapshot, Spotify
  streams flat.\<close>

definition db_tenfold :: Session where
  "db_tenfold =
     \<lparr>tracks = [track1],
      track_metrics =
        [metric_row ''t1'' (day 80) (Some 20) (Some 10000),
         metric_row ''t1'' (day 98) (Some 200) (Some 10000)],
      track_scores = [], discovery_runs = []\<rparr>"

text \<open>Seven daily snapshots, each with a TikTok 7-day posts value of 0 and no Spotify
  value.\<close>

definition db_zero_posts :: Session where
  "db_zero_posts =
     \<lparr>tracks = [track1],
      track_metrics = map (\<lambda>d. metric_row ''t1'' (day d) (Some 0) None) [92, 93, 94, 95, 96, 97, 98],
      track_scores = [], discovery_runs = []\<rparr>"

text \<open>The trending gate in the words of the specification: a snapshot of the last 7
  days exists; its TikTok 7-day posts, when non-null, are at least 50; its Spotify 7-day
  streams, when non-null, are at least 10000; at least 7 observations lie in the
  trailing 30 days.\<close>

definition trending_gate_as_specified :: "datetime \<Rightarrow> string \<Rightarrow> Session \<Rightarrow> bool" where
  "trending_gate_as_specified now tid db =
     (case recent_metric now tid db 7 of
        None \<Rightarrow> False
      | Some recent \<Rightarrow>
          (case tiktok_posts_7d recent of None \<Rightarrow> True | Some p \<Rightarrow> 50 \<le> p)
          \<and> (case spotify_streams_7d recent of None \<Rightarrow> True | Some s \<Rightarrow> 10000 \<le> s)
          \<and> 7 \<le> get_data_points_count now tid db 30)"

text \<open>A track with no metric row at all.\<close>

definition db_empty :: Session where
  "db_empty = \<lparr>tracks = [track1], track_metrics = [], track_scores = [], discovery_runs = []\<rparr>"

text \<open>A metric row that carries only a daily Spotify stream count.\<close>

definition stream_row :: "string \<Rightarrow> datetime \<Rightarrow> int option \<Rightarrow> TrackMetric" where
  "stream_row tid t streams =
     \<lparr>track_id = tid, timestamp = t, spotify_streams = streams, spotify_streams_7d = None,
      spotify_playlist_count = None, spotify_chart_position = None,
      tiktok_posts_7d = None, tiktok_views_7d = None, tiktok_chart_position = None\<rparr>"

text \<open>Thirty daily observations of 30000 streams, from day 70 to day 99.\<close>

definition db_constant :: Session where
  "db_constant =
     \<lparr>tracks = [track1],
      track_metrics = map (\<lambda>k. stream_row ''t1'' (day (70 + int k)) (Some 30000)) [0..<30],
      track_scores = [], discovery_runs = []\<rparr>"

text \<open>Three daily observations of differing stream counts.\<close>

definition db_short :: Session where
  "db_short =
     \<lparr>tracks = [track1],
      track_metrics = map (\<lambda>d. stream_row ''t1'' (day d) (Some (d * 1000))) [97, 98, 99],
      track_scores = [], discovery_runs = []\<rparr>"

text \<open>Thirty daily observations with a non-null stream count, 29 of them 0 and one of
  100.\<close>

definition db_one_nonzero :: Session where
  "db_one_nonzero =
     \<lparr>tracks = [track1],
      track_metrics =
        map (\<lambda>k. stream_row ''t1'' (day (70 + int k)) (Some 0)) [0..<29]
        @ [stream_row ''t1'' (day 99) (Some 100)],
      track_scores = [], discovery_runs = []\<rparr>"

text \<open>Stream consistency in the words of the specification, for a reading \<open>qualifying\<close>
  of which values of the lookback window count as observations: fewer than 30 of them
  give 0; otherwise the result is \<open>max 0 (1 - std / mean)\<close> clamped to 1, with the mean
  and the population standard deviation of these observations, and 0 when the mean is
  0.\<close>

definition consistency_as_specified ::
  "(int \<Rightarrow> bool) \<Rightarrow> datetime \<Rightarrow> string \<Rightarrow> Session \<Rightarrow> int \<Rightarrow> real" where
  "consistency_as_specified qualifying now tid db lookback_days =
     (let vals = [v. Some v \<leftarrow> map spotify_streams
                      (filter (\<lambda>m. track_id m = tid
                                  \<and> now - timedelta lookback_days \<le> timestamp m)
                         (track_metrics db)),
                    qualifying v];
          n = real (length vals);
          mu = real_of_int (sum_list vals) / n;
          sigma = sqrt ((\<Sum>v\<leftarrow>vals. (real_of_int v - mu)\<^sup>2) / n)
      in if length vals < 30 then 0
         else if mu = 0 then 0
         else min 1 (max 0 (1 - sigma / mu)))"

text \<open>A second track, and a session in which both tracks pass the trending gate and
  the latest score record of \<open>t1\<close> carries an evergreen score of 72.5.\<close>

definition track2 :: Track where
  "track2 =
     \<lparr>id_track = ''t2'', title = ''Other'', artist_name = ''Artist'', first_discovered = day 10\<rparr>"

definition prior_score :: TrackScore where
  "prior_score =
     \<lparr>score_track_id = ''t1'', computed_at = day 90, trending_score = None,
      evergreen_score = Some (725 / 10), components = [], why_selected = [], risk_flags = []\<rparr>"

definition db_scored :: Session where
  "db_scored =
     \<lparr>tracks = [track1, track2],
      track_metrics =
        map (\<lambda>d. metric_row ''t1'' (day d) (Some 200) (Some 20000)) [92, 93, 94, 95, 96, 97, 98]
        @ map (\<lambda>d. metric_row ''t2'' (day d) (Some 300) (Some 30000)) [92, 93, 94, 95, 96, 97, 98],
      track_scores = [prior_score], discovery_runs = []\<rparr>"




text \<open>The score row that \<open>failing_persist\<close> commits.\<close>

definition toy_score :: "string \<Rightarrow> TrackScore" where
  "toy_score tid =
     \<lparr>score_track_id = tid, computed_at = day 100, trending_score = Some 50,
      evergreen_score = None, components = [], why_selected = [], risk_flags = []\<rparr>"

text \<open>A \<^verbatim>\<open>score_and_persist\<close> that raises on the track \<open>t2\<close> and commits a score
  for every other track.\<close>

definition failing_persist :: "Track \<Rightarrow> string \<Rightarrow> Session \<Rightarrow> error + TrackScore option \<times> Session" where
  "failing_persist track tid db =
     (if tid = ''t2'' then Inl (Unhandled ''store unavailable'')
      else Inr (Some (toy_score tid), db\<lparr>track_scores := track_scores db @ [toy_score tid]\<rparr>))"

text \<open>Three tracks for a batch run.\<close>

definition db_batch :: Session where
  "db_batch =
     \<lparr>tracks =
        [\<lparr>id_track = ''t1'', title = ''A'', artist_name = ''X'', first_discovered = day 1\<rparr>,
         \<lparr>id_track = ''t2'', title = ''B'', artist_name = ''X'', first_discovered = day 1\<rparr>,
         \<lparr>id_track = ''t3'', title = ''C'', artist_name = ''X'', first_discovered = day 1\<rparr>],
      track_metrics = [], track_scores = [], discovery_runs = []\<rparr>"

section \<open>Properties\<close>

subsection \<open>Snapshot queries\<close>

lemma velocity_of_cases:
  "velocity_of cap r b =
     (case (r, b) of
        (Some R, Some B) \<Rightarrow> if R = 0 \<or> B = 0 then 0 else real_of_int R / real_of_int B
      | _ \<Rightarrow> 0)"
  by (cases r; cases b) (auto simp: velocity_of_def)

lemma db_zero_recent:
  "recent_metric (day 100) ''t1'' db_zero 7 = Some (metric_row ''t1'' (day 98) (Some 120) (Some 500))"
  by (simp add: recent_metric_def db_zero_def metric_row_def day_def timedelta_def)

lemma db_zero_baseline:
  "baseline_metric (day 100) ''t1'' db_zero 7 30 = Some (metric_row ''t1'' (day 80) (Some 0) (Some 0))"
  by (simp add: baseline_metric_def db_zero_def metric_row_def day_def timedelta_def)

subsection \<open>Velocity extractors\<close>

text \<open>
  Claim C2 (velocity edge cases). What the velocity extractors compute, for TikTok posts
  velocity and for playlist growth: 0 when the recent or the baseline snapshot is
  absent; 0 when the baseline value is 0, whatever the recent value, because the
  truthiness test \<^verbatim>\<open>not baseline.tiktok_posts_7d\<close> returns before the branch
  \<^verbatim>\<open>baseline.tiktok_posts_7d == 0\<close> with its cap is reached; and exactly
  recent / baseline when both values are present and the baseline is not 0. The claim's
  cap of 10.0 for a zero baseline with a positive recent value is never returned.
\<close>

theorem velocity_edge_cases_as_coded:
  "(recent_metric now tid db sp = None \<or> baseline_metric now tid db sp lp = None
      \<longrightarrow> calculate_posts_velocity now tid db sp lp = 0)
   \<and> (recent_metric now tid db sp = Some r \<and> baseline_metric now tid db sp lp = Some b
      \<longrightarrow> (tiktok_posts_7d b = Some 0 \<longrightarrow> calculate_posts_velocity now tid db sp lp = 0)
        \<and> (tiktok_posts_7d r = Some R \<and> tiktok_posts_7d b = Some B \<and> B \<noteq> 0
             \<longrightarrow> calculate_posts_velocity now tid db sp lp = real_of_int R / real_of_int B))
   \<and> (recent_metric now tid db 7 = None \<or> baseline_metric now tid db 7 lp = None
      \<longrightarrow> calculate_playlist_growth now tid db lp = 0)
   \<and> (recent_metric now tid db 7 = Some r' \<and> baseline_metric now tid db 7 lp = Some b'
      \<longrightarrow> (spotify_playlist_count b' = Some 0 \<longrightarrow> calculate_playlist_growth now tid db lp = 0)
        \<and> (spotify_playlist_count r' = Some R' \<and> spotify_playlist_count b' = Some B' \<and> B' \<noteq> 0
             \<longrightarrow> calculate_playlist_growth now tid db lp = real_of_int R' / real_of_int B'))"
  by (auto simp: calculate_posts_velocity_def calculate_playlist_growth_def velocity_of_cases
           split: option.splits)

text \<open>The failing input of C2: a baseline of 0 posts, 120 recent posts. The extractor
  returns 0, not the cap.\<close>

theorem velocity_zero_baseline_witness:
  "recent_metric (day 100) ''t1'' db_zero 7 = Some (metric_row ''t1'' (day 98) (Some 120) (Some 500))
   \<and> baseline_metric (day 100) ''t1'' db_zero 7 30 = Some (metric_row ''t1'' (day 80) (Some 0) (Some 0))
   \<and> tiktok_posts_7d (metric_row ''t1'' (day 98) (Some 120) (Some 500)) = Some 120
   \<and> tiktok_posts_7d (metric_row ''t1'' (day 80) (Some 0) (Some 0)) = Some 0
   \<and> calculate_posts_velocity (day 100) ''t1'' db_zero 7 30 = 0
   \<and> calculate_posts_velocity (day 100) ''t1'' db_zero 7 30 \<noteq> 10"
  using velocity_edge_cases_as_coded [of "day 100" "''t1''" db_zero 7 30
      "metric_row ''t1'' (day 98) (Some 120) (Some 500)"
      "metric_row ''t1'' (day 80) (Some 0) (Some 0)"]
    db_zero_recent db_zero_baseline
  by (simp add: metric_row_def)

subsection \<open>Cross-platform confirmation\<close>

text \<open>
  Claim C10 (implicit edge case). What the code computes when a baseline is missing or 0.
  \<^verbatim>\<open>calculate_cross_platform_confirmation\<close> returns \<open>False\<close> whenever the
  baseline snapshot is absent, or the baseline value of either platform is null or 0,
  whatever the recent values are. The velocity extractors of the two platforms,
  \<^verbatim>\<open>calculate_posts_velocity\<close> and \<^verbatim>\<open>calculate_stream_growth\<close>, return 0 on a
  baseline value of 0, whatever the recent value: not the maximal growth 10.0 of the
  claim, which stands in their branch \<^verbatim>\<open>baseline == 0\<close> behind the truthiness test
  \<^verbatim>\<open>not baseline\<close> and is never reached.
\<close>

theorem cross_platform_false_without_baseline:
  "(baseline_metric now tid db 7 30 = None
    \<or> (\<exists>b. baseline_metric now tid db 7 30 = Some b
           \<and> (tiktok_posts_7d b = None \<or> tiktok_posts_7d b = Some 0
              \<or> spotify_streams_7d b = None \<or> spotify_streams_7d b = Some 0))
    \<longrightarrow> \<not> calculate_cross_platform_confirmation now tid db)
   \<and> (baseline_metric now tid db 7 30 = Some b \<and> tiktok_posts_7d b = Some 0
      \<longrightarrow> calculate_posts_velocity now tid db 7 30 = 0)
   \<and> (baseline_metric now tid db 7 30 = Some b \<and> spotify_streams_7d b = Some 0
      \<longrightarrow> calculate_stream_growth now tid db 7 30 = 0)"
proof (intro conjI impI)
  assume "baseline_metric now tid db 7 30 = None
    \<or> (\<exists>b. baseline_metric now tid db 7 30 = Some b
           \<and> (tiktok_posts_7d b = None \<or> tiktok_posts_7d b = Some 0
              \<or> spotify_streams_7d b = None \<or> spotify_streams_7d b = Some 0))"
  then show "\<not> calculate_cross_platform_confirmation now tid db"
    by (auto simp: calculate_cross_platform_confirmation_def growing_def split: option.splits)
next
  assume "baseline_metric now tid db 7 30 = Some b \<and> tiktok_posts_7d b = Some 0"
  then show "calculate_posts_velocity now tid db 7 30 = 0"
    by (auto simp: calculate_posts_velocity_def velocity_of_cases split: option.splits)
next
  assume "baseline_metric now tid db 7 30 = Some b \<and> spotify_streams_7d b = Some 0"
  then show "calculate_stream_growth now tid db 7 30 = 0"
    by (auto simp: calculate_stream_growth_def velocity_of_cases split: option.splits)
qed

text \<open>On \<open>db_zero\<close> the baseline values of both platforms are 0 and the recent values
  are positive, 120 posts and 500 streams: no confirmation, and both velocities are 0,
  not 10.\<close>

theorem cross_platform_false_without_baseline_witness:
  "baseline_metric (day 100) ''t1'' db_zero 7 30 = Some (metric_row ''t1'' (day 80) (Some 0) (Some 0))
   \<and> tiktok_posts_7d (metric_row ''t1'' (day 80) (Some 0) (Some 0)) = Some 0
   \<and> spotify_streams_7d (metric_row ''t1'' (day 80) (Some 0) (Some 0)) = Some 0
   \<and> recent_metric (day 100) ''t1'' db_zero 7 = Some (metric_row ''t1'' (day 98) (Some 120) (Some 500))
   \<and> tiktok_posts_7d (metric_row ''t1'' (day 98) (Some 120) (Some 500)) = Some 120
   \<and> spotify_streams_7d (metric_row ''t1'' (day 98) (Some 120) (Some 500)) = Some 500
   \<and> \<not> calculate_cross_platform_confirmation (day 100) ''t1'' db_zero
   \<and> calculate_posts_velocity (day 100) ''t1'' db_zero 7 30 = 0
   \<and> calculate_stream_growth (day 100) ''t1'' db_zero 7 30 = 0
   \<and> calculate_posts_velocity (day 100) ''t1'' db_zero 7 30 \<noteq> 10
   \<and> calculate_stream_growth (day 100) ''t1'' db_zero 7 30 \<noteq> 10"
proof -
  have zero: "tiktok_posts_7d (metric_row ''t1'' (day 80) (Some 0) (Some 0)) = Some 0"
    "spotify_streams_7d (metric_row ''t1'' (day 80) (Some 0) (Some 0)) = Some 0"
    by (simp_all add: metric_row_def)
  note t = cross_platform_false_without_baseline [of "day 100" "''t1''" db_zero
      "metric_row ''t1'' (day 80) (Some 0) (Some 0)"]
  have c: "\<not> calculate_cross_platform_confirmation (day 100) ''t1'' db_zero"
    using t db_zero_baseline zero by blast
  have p: "calculate_posts_velocity (day 100) ''t1'' db_zero 7 30 = 0"
    using t db_zero_baseline zero by blast
  have s: "calculate_stream_growth (day 100) ''t1'' db_zero 7 30 = 0"
    using t db_zero_baseline zero by blast
  show ?thesis
    unfolding db_zero_baseline db_zero_recent p s using c by (simp add: metric_row_def)
qed

subsection \<open>Trending score\<close>

lemma normalize_velocity_range: "0 \<le> normalize_velocity v \<and> normalize_velocity v \<le> 1"
  by (simp add: normalize_velocity_def min_velocity_def max_velocity_def)

lemma weighted_sum_trending:
  "weighted_sum TRENDING_WEIGHTS (trending_components now tid db) =
     30 / 100 * normalize_velocity (calculate_posts_velocity now tid db 7 30)
   + 20 / 100 * normalize_velocity (calculate_views_velocity now tid db 7 30)
   + 20 / 100 * normalize_velocity (calculate_stream_growth now tid db 7 30)
   + 15 / 100 * normalize_velocity (calculate_playlist_growth now tid db 30)
   + 10 / 100 * (if calculate_cross_platform_confirmation now tid db then 1 else 0)
   + 5 / 100 * (if has_chart_entry now tid db 30 \<or> has_chart_presence now tid db 30 then 1 else 0)"
  by (simp add: weighted_sum_def TRENDING_WEIGHTS_def trending_components_def dict_get_def)

lemma trending_calculate_score_unfold:
  "TrendingScorer_calculate_score now track tid db =
     (weighted_sum TRENDING_WEIGHTS (trending_components now tid db) * 100,
      trending_components now tid db,
      TrendingScorer_check_thresholds now tid db)"
  by (simp add: TrendingScorer_calculate_score_def TrendingScorer_calculate_score_of_def Let_def)

lemma db_tenfold_recent:
  "recent_metric (day 100) ''t1'' db_tenfold 7
     = Some (metric_row ''t1'' (day 98) (Some 200) (Some 10000))"
  by (simp add: recent_metric_def db_tenfold_def metric_row_def day_def timedelta_def)

lemma db_tenfold_baseline:
  "baseline_metric (day 100) ''t1'' db_tenfold 7 30
     = Some (metric_row ''t1'' (day 80) (Some 20) (Some 10000))"
  by (simp add: baseline_metric_def db_tenfold_def metric_row_def day_def timedelta_def)

lemma db_tenfold_components:
  "trending_components (day 100) ''t1'' db_tenfold =
     [(''tiktok_posts_velocity'', 1), (''tiktok_views_velocity'', 0),
      (''spotify_stream_growth'', 0), (''playlist_growth'', 0),
      (''cross_platform_boost'', 0), (''chart_entry_bonus'', 0)]"
  apply (simp add: trending_components_def calculate_posts_velocity_def
      calculate_views_velocity_def calculate_stream_growth_def calculate_playlist_growth_def
      calculate_cross_platform_confirmation_def db_tenfold_recent db_tenfold_baseline)
  apply (simp add: metric_row_def velocity_of_def growing_def normalize_velocity_def
      min_velocity_def max_velocity_def has_chart_entry_def has_chart_presence_def
      db_tenfold_def)
  done

text \<open>
  Claim C7 (trending score formula). A velocity is normalised by the linear map that
  sends a ratio of at most 1 to 0, a ratio of at least 10 to 1, and \<open>v\<close> in between to
  \<open>(v - 1) / (10 - 1)\<close>; the components are the four normalised velocities and the two
  boolean features as 0 or 1, so each lies in the unit interval; the total is 100 times
  the sum over the trending weight table (0.30, 0.20, 0.20, 0.15, 0.10, 0.05) of weight
  times component; and the total lies between 0 and 100.
\<close>

theorem trending_score_formula:
  "(\<forall>v. normalize_velocity v = (if v \<le> 1 then 0 else if 10 \<le> v then 1 else (v - 1) / (10 - 1)))
   \<and> TRENDING_WEIGHTS =
       [(''tiktok_posts_velocity'', 30 / 100), (''tiktok_views_velocity'', 20 / 100),
        (''spotify_stream_growth'', 20 / 100), (''playlist_growth'', 15 / 100),
        (''cross_platform_boost'', 10 / 100), (''chart_entry_bonus'', 5 / 100)]
   \<and> fst (snd (TrendingScorer_calculate_score now track tid db)) =
       [(''tiktok_posts_velocity'', normalize_velocity (calculate_posts_velocity now tid db 7 30)),
        (''tiktok_views_velocity'', normalize_velocity (calculate_views_velocity now tid db 7 30)),
        (''spotify_stream_growth'', normalize_velocity (calculate_stream_growth now tid db 7 30)),
        (''playlist_growth'', normalize_velocity (calculate_playlist_growth now tid db 30)),
        (''cross_platform_boost'',
           if calculate_cross_platform_confirmation now tid db then 1 else 0),
        (''chart_entry_bonus'',
           if has_chart_entry now tid db 30 \<or> has_chart_presence now tid db 30 then 1 else 0)]
   \<and> (\<forall>kv \<in> set (fst (snd (TrendingScorer_calculate_score now track tid db))).
         0 \<le> snd kv \<and> snd kv \<le> 1)
   \<and> fst (TrendingScorer_calculate_score now track tid db) =
       100 * (\<Sum>(feature, weight) \<leftarrow> TRENDING_WEIGHTS.
                weight * dict_get (fst (snd (TrendingScorer_calculate_score now track tid db)))
                           feature 0)
   \<and> 0 \<le> fst (TrendingScorer_calculate_score now track tid db)
   \<and> fst (TrendingScorer_calculate_score now track tid db) \<le> 100"
proof -
  let ?comps = "trending_components now tid db"
  have norm: "\<forall>v. normalize_velocity v =
      (if v \<le> 1 then 0 else if 10 \<le> v then 1 else (v - 1) / (10 - 1))"
    by (simp add: normalize_velocity_def min_velocity_def max_velocity_def)
  have tw: "TRENDING_WEIGHTS =
       [(''tiktok_posts_velocity'', 30 / 100), (''tiktok_views_velocity'', 20 / 100),
        (''spotify_stream_growth'', 20 / 100), (''playlist_growth'', 15 / 100),
        (''cross_platform_boost'', 10 / 100), (''chart_entry_bonus'', 5 / 100)]"
    by (fact TRENDING_WEIGHTS_def)
  have comps: "?comps =
       [(''tiktok_posts_velocity'', normalize_velocity (calculate_posts_velocity now tid db 7 30)),
        (''tiktok_views_velocity'', normalize_velocity (calculate_views_velocity now tid db 7 30)),
        (''spotify_stream_growth'', normalize_velocity (calculate_stream_growth now tid db 7 30)),
        (''playlist_growth'', normalize_velocity (calculate_playlist_growth now tid db 30)),
        (''cross_platform_boost'',
           if calculate_cross_platform_confirmation now tid db then 1 else 0),
        (''chart_entry_bonus'',
           if has_chart_entry now tid db 30 \<or> has_chart_presence now tid db 30 then 1 else 0)]"
    by (fact trending_components_def)
  have range: "\<forall>kv \<in> set ?comps. 0 \<le> snd kv \<and> snd kv \<le> 1"
    using normalize_velocity_range by (simp add: trending_components_def)
  have total: "weighted_sum TRENDING_WEIGHTS ?comps * 100 =
      100 * (\<Sum>(feature, weight) \<leftarrow> TRENDING_WEIGHTS. weight * dict_get ?comps feature 0)"
    by (simp add: weighted_sum_def TRENDING_WEIGHTS_def)
  have lo: "0 \<le> weighted_sum TRENDING_WEIGHTS ?comps"
    unfolding weighted_sum_trending
    using normalize_velocity_range [of "calculate_posts_velocity now tid db 7 30"]
      normalize_velocity_range [of "calculate_views_velocity now tid db 7 30"]
      normalize_velocity_range [of "calculate_stream_growth now tid db 7 30"]
      normalize_velocity_range [of "calculate_playlist_growth now tid db 30"]
    by (simp split: if_splits)
  have hi: "weighted_sum TRENDING_WEIGHTS ?comps \<le> 1"
    unfolding weighted_sum_trending
    using normalize_velocity_range [of "calculate_posts_velocity now tid db 7 30"]
      normalize_velocity_range [of "calculate_views_velocity now tid db 7 30"]
      normalize_velocity_range [of "calculate_stream_growth now tid db 7 30"]
      normalize_velocity_range [of "calculate_playlist_growth now tid db 30"]
    by (simp split: if_splits)
  have lo': "0 \<le> weighted_sum TRENDING_WEIGHTS ?comps * 100"
    using lo by simp
  have hi': "weighted_sum TRENDING_WEIGHTS ?comps * 100 \<le> 100"
    using hi by simp
  show ?thesis
    unfolding trending_calculate_score_unfold fst_conv snd_conv
    by (intro conjI norm tw comps range total lo' hi')
qed

text \<open>The scenario of a tenfold growth of TikTok posts with flat Spotify streams: the
  posts component is 1, the cross-platform boost 0, the total 30.\<close>

theorem trending_score_formula_witness:
  "fst (snd (TrendingScorer_calculate_score (day 100) track1 ''t1'' db_tenfold)) =
     [(''tiktok_posts_velocity'', 1), (''tiktok_views_velocity'', 0),
      (''spotify_stream_growth'', 0), (''playlist_growth'', 0),
      (''cross_platform_boost'', 0), (''chart_entry_bonus'', 0)]
   \<and> fst (TrendingScorer_calculate_score (day 100) track1 ''t1'' db_tenfold) = 30"
  using trending_score_formula [of "day 100" track1 "''t1''" db_tenfold]
  by (simp add: trending_calculate_score_unfold db_tenfold_components weighted_sum_def
        TRENDING_WEIGHTS_def dict_get_def)

subsection \<open>Weight validation\<close>






















































subsection \<open>Trending threshold gate\<close>

lemma db_zero_posts_recent:
  "recent_metric (day 100) ''t1'' db_zero_posts 7 = Some (metric_row ''t1'' (day 98) (Some 0) None)"
  by (simp add: recent_metric_def db_zero_posts_def metric_row_def day_def timedelta_def)

lemma db_zero_posts_count: "get_data_points_count (day 100) ''t1'' db_zero_posts 30 = 7"
  by (simp add: get_data_points_count_def db_zero_posts_def metric_row_def day_def timedelta_def)

text \<open>
  Claim C3 (trending threshold gate). What the code computes: \<^verbatim>\<open>passes_threshold\<close>
  is true exactly when a snapshot of the last 7 days exists; the TikTok 7-day posts of
  the latest one are null, 0, or at least 50; its Spotify 7-day streams are null, 0, or
  at least 10000; and at least 7 observations lie in the trailing 30 days. The value
  does not depend on the weight table or the score: it is the third component of
  \<^verbatim>\<open>calculate_score\<close> for every table. A present count of 0 passes, where the
  claim and the configuration (\<^verbatim>\<open>MIN_THRESHOLDS\<close>: tracks below these thresholds are
  filtered out) fail every present count below the minimum, and where the code fails the
  counts 1 to 49: the guard \<^verbatim>\<open>if recent.tiktok_posts_7d and ...\<close> tests the
  truthiness of the count, not its presence.
\<close>

theorem trending_gate_as_coded:
  "TrendingScorer_check_thresholds now tid db =
     (case recent_metric now tid db 7 of
        None \<Rightarrow> False
      | Some recent \<Rightarrow>
          (case tiktok_posts_7d recent of None \<Rightarrow> True | Some p \<Rightarrow> p = 0 \<or> 50 \<le> p)
          \<and> (case spotify_streams_7d recent of None \<Rightarrow> True | Some s \<Rightarrow> s = 0 \<or> 10000 \<le> s)
          \<and> 7 \<le> get_data_points_count now tid db 30)
   \<and> snd (snd (TrendingScorer_calculate_score_of W now track tid db)) =
       TrendingScorer_check_thresholds now tid db"
  by (auto simp: TrendingScorer_check_thresholds_def TrendingScorer_calculate_score_of_def Let_def
        trending_min_tiktok_posts_7d_def trending_min_spotify_streams_7d_def
        trending_min_data_points_def split: option.splits)

text \<open>The failing input of C3, \<open>db_zero_posts\<close>: seven snapshots in the window, the
  latest with a non-null TikTok count of 0, below 50. The gate of the code passes,
  for every weight table; the gate as the claim words it does not.\<close>

theorem trending_gate_as_coded_witness:
  "recent_metric (day 100) ''t1'' db_zero_posts 7 = Some (metric_row ''t1'' (day 98) (Some 0) None)
   \<and> tiktok_posts_7d (metric_row ''t1'' (day 98) (Some 0) None) = Some 0
   \<and> get_data_points_count (day 100) ''t1'' db_zero_posts 30 = 7
   \<and> TrendingScorer_check_thresholds (day 100) ''t1'' db_zero_posts
   \<and> snd (snd (TrendingScorer_calculate_score_of [] (day 100) track1 ''t1'' db_zero_posts))
   \<and> \<not> trending_gate_as_specified (day 100) ''t1'' db_zero_posts"
proof -
  have g: "TrendingScorer_check_thresholds (day 100) ''t1'' db_zero_posts
      \<and> snd (snd (TrendingScorer_calculate_score_of [] (day 100) track1 ''t1'' db_zero_posts))"
    using trending_gate_as_coded [of "day 100" "''t1''" db_zero_posts "[]" track1]
    by (simp add: db_zero_posts_recent db_zero_posts_count) (simp add: metric_row_def)
  have n: "\<not> trending_gate_as_specified (day 100) ''t1'' db_zero_posts"
    by (simp add: trending_gate_as_specified_def db_zero_posts_recent) (simp add: metric_row_def)
  show ?thesis
    using g n by (simp add: db_zero_posts_recent db_zero_posts_count) (simp add: metric_row_def)
qed

subsection \<open>Empty metric history\<close>

lemma no_rows_filter:
  "\<forall>m \<in> set ms. track_id m \<noteq> tid \<Longrightarrow> filter (\<lambda>m. track_id m = tid \<and> P m) ms = []"
  by (induction ms) auto

lemma no_rows_recent:
  "\<forall>m \<in> set (track_metrics db). track_id m \<noteq> tid \<Longrightarrow> recent_metric now tid db sp = None"
  by (simp add: recent_metric_def no_rows_filter)

lemma no_rows_count:
  "\<forall>m \<in> set (track_metrics db). track_id m \<noteq> tid \<Longrightarrow> get_data_points_count now tid db lb = 0"
  by (simp add: get_data_points_count_def no_rows_filter)

text \<open>
  Claim C5 (totality on empty history), for the extractors that read the metric history.
  For a track with no metric row, each of the twelve extractors that query the metric
  table returns 0, or \<open>False\<close> for a boolean feature, whatever its period arguments
  are, and none raises (\<^verbatim>\<open>calculate_active_months_ratio\<close>, the one extractor of the
  model that can raise, returns 0); both \<^verbatim>\<open>TrendingScorer.calculate_score\<close> and
  \<^verbatim>\<open>EvergreenScorer.calculate_score\<close> return \<^verbatim>\<open>passes_threshold = False\<close>. The two
  remaining extractors, \<^verbatim>\<open>get_track_age_days\<close> and \<^verbatim>\<open>is_new_discovery\<close>, read
  the track only and are not covered.
\<close>

theorem extractors_on_empty_history:
  assumes "\<forall>m \<in> set (track_metrics db). track_id m \<noteq> tid"
  shows "calculate_posts_velocity now tid db sp lp = 0
       \<and> calculate_views_velocity now tid db sp lp = 0
       \<and> \<not> has_tiktok_momentum now tid db thr
       \<and> \<not> calculate_cross_platform_confirmation now tid db
       \<and> \<not> has_chart_entry now tid db lb
       \<and> calculate_stream_consistency now tid db lb = 0
       \<and> calculate_stream_growth now tid db sp lp = 0
       \<and> calculate_active_months_ratio now tid db lb = Inr 0
       \<and> calculate_playlist_growth now tid db lp = 0
       \<and> \<not> has_chart_presence now tid db lb
       \<and> calculate_recency_score now tid db = 0
       \<and> get_data_points_count now tid db lb = 0
       \<and> \<not> snd (snd (TrendingScorer_calculate_score now track tid db))
       \<and> (\<exists>score comps. EvergreenScorer_calculate_score now track tid db = Inr (score, comps, False))"
proof -
  note r = no_rows_recent [OF assms]
  note f = no_rows_filter [OF assms]
  note c = no_rows_count [OF assms]
  have 1: "calculate_posts_velocity now tid db sp lp = 0"
    by (simp add: calculate_posts_velocity_def r)
  have 2: "calculate_views_velocity now tid db sp lp = 0"
    by (simp add: calculate_views_velocity_def r)
  have 3: "\<not> has_tiktok_momentum now tid db thr"
    by (simp add: has_tiktok_momentum_def r)
  have 4: "\<not> calculate_cross_platform_confirmation now tid db"
    by (simp add: calculate_cross_platform_confirmation_def r)
  have 5: "\<not> has_chart_entry now tid db lb"
    by (simp add: has_chart_entry_def f)
  have 6: "calculate_stream_consistency now tid db lb = 0"
    by (simp add: calculate_stream_consistency_def consistency_metrics_def f)
  have 7: "calculate_stream_growth now tid db sp lp = 0"
    by (simp add: calculate_stream_growth_def r)
  have 8: "calculate_active_months_ratio now tid db lb = Inr 0"
    by (simp add: calculate_active_months_ratio_def f)
  have 9: "calculate_playlist_growth now tid db lp = 0"
    by (simp add: calculate_playlist_growth_def r)
  have 10: "\<not> has_chart_presence now tid db lb"
    by (simp add: has_chart_presence_def f)
  have 11: "calculate_recency_score now tid db = 0"
    using assms by (simp add: calculate_recency_score_def filter_empty_conv)
  have 12: "\<not> snd (snd (TrendingScorer_calculate_score now track tid db))"
    by (simp add: trending_calculate_score_unfold TrendingScorer_check_thresholds_def r)
  have 13: "\<exists>score comps. EvergreenScorer_calculate_score now track tid db = Inr (score, comps, False)"
    by (simp add: EvergreenScorer_calculate_score_def EvergreenScorer_calculate_score_of_def
        EvergreenScorer_check_thresholds_def c evergreen_min_data_points_def
        calculate_active_months_ratio_def f Let_def)
  show ?thesis
    by (intro conjI 1 2 3 4 5 6 7 8 9 10 11 c 12 13)
qed

text \<open>The session \<open>db_empty\<close> has no metric row.\<close>

theorem extractors_on_empty_history_witness:
  "track_metrics db_empty = []
   \<and> calculate_posts_velocity (day 100) ''t1'' db_empty 7 30 = 0
   \<and> calculate_stream_consistency (day 100) ''t1'' db_empty 180 = 0
   \<and> calculate_active_months_ratio (day 100) ''t1'' db_empty 365 = Inr 0
   \<and> \<not> snd (snd (TrendingScorer_calculate_score (day 100) track1 ''t1'' db_empty))"
proof -
  have h: "\<forall>m \<in> set (track_metrics db_empty). track_id m \<noteq> ''t1''"
    by (simp add: db_empty_def)
  show ?thesis
    using extractors_on_empty_history [OF h, of "day 100" 7 30 100 180 track1]
      extractors_on_empty_history [OF h, of "day 100" 7 30 100 365 track1]
    by (simp add: db_empty_def)
qed

text \<open>The claim as stated, for every feature extractor, fails on the same session: the
  temporal extractor \<^verbatim>\<open>get_track_age_days\<close> returns the age of the track, 5 days,
  and \<^verbatim>\<open>is_new_discovery\<close> returns \<open>True\<close>.\<close>

theorem track_age_counterexample:
  "track1 \<in> set (tracks db_empty) \<and> track_metrics db_empty = []
   \<and> get_track_age_days (day 100) track1 = 5
   \<and> get_track_age_days (day 100) track1 \<noteq> 0
   \<and> is_new_discovery (day 100) track1 30"
  by (simp add: db_empty_def get_track_age_days_def is_new_discovery_def track1_def day_def
        timedelta_def days_of_def)

subsection \<open>Stream consistency\<close>

lemma sum_list_insort_key:
  "sum_list (map g (insort_key f x xs)) = g x + sum_list (map g xs)"
  for g :: "'a \<Rightarrow> 'b::comm_monoid_add"
  by (induction xs) (auto simp: ac_simps)

lemma sum_list_sort_key:
  "sum_list (map g (sort_key f xs)) = sum_list (map g xs)"
  for g :: "'a \<Rightarrow> 'b::comm_monoid_add"
  by (induction xs) (auto simp: sum_list_insort_key)

lemma truthy_streams_sort_key:
  "truthy_streams (sort_key f ms) =
     map (\<lambda>m. int_value (spotify_streams m)) (sort_key f (filter (\<lambda>m. truthy (spotify_streams m)) ms))"
  by (simp add: truthy_streams_def filter_sort)

lemma truthy_streams_comprehension:
  "truthy_streams ms = [v. Some v \<leftarrow> map spotify_streams ms, v \<noteq> 0]"
  by (induction ms) (auto simp: truthy_streams_def split: option.splits)

lemma truthy_streams_sorted_sum:
  "(\<Sum>v\<leftarrow>truthy_streams (sort_key f ms). g v) = (\<Sum>v\<leftarrow>truthy_streams ms. g v)"
  for g :: "int \<Rightarrow> 'b::comm_monoid_add"
proof -
  have "(\<Sum>v\<leftarrow>truthy_streams (sort_key f ms). g v)
      = sum_list (map (\<lambda>m. g (int_value (spotify_streams m)))
          (sort_key f (filter (\<lambda>m. truthy (spotify_streams m)) ms)))"
    by (simp add: truthy_streams_sort_key comp_def)
  also have "\<dots> = sum_list (map (\<lambda>m. g (int_value (spotify_streams m)))
          (filter (\<lambda>m. truthy (spotify_streams m)) ms))"
    by (rule sum_list_sort_key)
  also have "\<dots> = (\<Sum>v\<leftarrow>truthy_streams ms. g v)"
    by (simp add: truthy_streams_def comp_def)
  finally show ?thesis .
qed

lemma truthy_streams_sorted_length:
  "length (truthy_streams (sort_key f ms)) = length (truthy_streams ms)"
  by (simp add: truthy_streams_sort_key) (simp add: truthy_streams_def)

lemma truthy_streams_sorted_empty:
  "truthy_streams (sort_key f ms) = [] \<longleftrightarrow> truthy_streams ms = []"
  using truthy_streams_sorted_length [of f ms] by (metis length_0_conv)

lemma truthy_streams_nonzero: "x \<in> set (truthy_streams ms) \<Longrightarrow> x \<noteq> 0"
  by (auto simp: truthy_streams_def) (metis int_value.simps(2) truthy.elims(2))

lemma Max_truthy_streams: "truthy_streams ms \<noteq> [] \<Longrightarrow> Max (set (truthy_streams ms)) \<noteq> 0"
  using truthy_streams_nonzero [of "Max (set (truthy_streams ms))" ms]
    Max_in [of "set (truthy_streams ms)"]
  by auto

lemma mean_sorted: "mean (truthy_streams (sort_key f ms)) = mean (truthy_streams ms)"
  using truthy_streams_sorted_sum [of "\<lambda>v. v" f ms]
  by (simp add: mean_def truthy_streams_sorted_length)

lemma std_sorted: "std (truthy_streams (sort_key f ms)) = std (truthy_streams ms)"
  unfolding std_def mean_sorted truthy_streams_sorted_length
  by (simp add: truthy_streams_sorted_sum [of "\<lambda>x. (real_of_int x - mean (truthy_streams ms))\<^sup>2"])

lemma sum_list_const: "\<forall>x \<in> set xs. x = c \<Longrightarrow> sum_list xs = int (length xs) * (c::int)"
  by (induction xs) (auto simp: algebra_simps)

lemma mean_const: "xs \<noteq> [] \<Longrightarrow> \<forall>x \<in> set xs. x = c \<Longrightarrow> mean xs = real_of_int c"
  by (simp add: mean_def sum_list_const)

lemma std_const: "xs \<noteq> [] \<Longrightarrow> \<forall>x \<in> set xs. x = c \<Longrightarrow> std xs = 0"
proof -
  assume ne: "xs \<noteq> []" and all: "\<forall>x \<in> set xs. x = c"
  have "(\<Sum>x\<leftarrow>xs. (real_of_int x - mean xs)\<^sup>2) = (\<Sum>x\<leftarrow>xs. 0)"
    using all mean_const [OF ne all] by (intro arg_cong [where f = sum_list] map_cong) auto
  then show ?thesis by (simp add: std_def)
qed

lemma truthy_streams_const:
  "\<forall>m \<in> set ms. spotify_streams m = Some c \<Longrightarrow> c \<noteq> 0 \<Longrightarrow> truthy_streams ms = replicate (length ms) c"
  by (induction ms) (auto simp: truthy_streams_def)

lemma consistency_unfold:
  "calculate_stream_consistency now tid db lb =
     (let rows = filter (\<lambda>m. track_id m = tid \<and> now - timedelta lb \<le> timestamp m
                              \<and> spotify_streams m \<noteq> None) (track_metrics db);
          vals = truthy_streams rows
      in if length rows < 30 then 0
         else if vals = [] then 0
         else if mean vals = 0 then 0
         else min 1 (max 0 (1 - std vals / mean vals)))"
proof -
  let ?rows = "filter (\<lambda>m. track_id m = tid \<and> now - timedelta lb \<le> timestamp m
                              \<and> spotify_streams m \<noteq> None) (track_metrics db)"
  have m: "consistency_metrics now tid db lb = sort_key timestamp ?rows"
    by (simp add: consistency_metrics_def)
  show ?thesis
    using Max_truthy_streams [of "sort_key timestamp ?rows"]
    unfolding calculate_stream_consistency_def m Let_def
    by (auto simp: mean_sorted std_sorted truthy_streams_sorted_empty)
qed

text \<open>
  Claim C8 (stream consistency), as the code has it. Let the rows be those of the
  lookback window with a non-null \<^verbatim>\<open>spotify_streams\<close>, and the values the non-zero
  stream counts of these rows. With fewer than 30 rows the result is 0. With at least
  30 rows it is 0 when there is no value or the mean of the values is 0, and otherwise
  \<open>max 0 (1 - std / mean)\<close> clamped to 1, with the mean and the population standard
  deviation of the values. With at least 30 rows, all of one positive count, the
  standard deviation is 0 and the result exactly 1. The rows are counted with their
  zeros, and the statistics are taken without them: the list comprehension
  \<^verbatim>\<open>[m.spotify_streams for m in metrics if m.spotify_streams]\<close> drops them, and the
  following test \<^verbatim>\<open>max(streams) == 0\<close> can never hold.
\<close>

theorem stream_consistency_as_coded:
  "(let rows = filter (\<lambda>m. track_id m = tid \<and> now - timedelta lb \<le> timestamp m
                           \<and> spotify_streams m \<noteq> None) (track_metrics db);
        vals = [v. Some v \<leftarrow> map spotify_streams rows, v \<noteq> 0];
        n = real (length vals);
        mu = real_of_int (sum_list vals) / n;
        sigma = sqrt ((\<Sum>v\<leftarrow>vals. (real_of_int v - mu)\<^sup>2) / n)
    in calculate_stream_consistency now tid db lb =
         (if length rows < 30 then 0
          else if vals = [] then 0
          else if mu = 0 then 0
          else min 1 (max 0 (1 - sigma / mu)))
       \<and> (30 \<le> length rows \<and> (\<forall>m \<in> set rows. spotify_streams m = Some c) \<and> 0 < c
            \<longrightarrow> sigma = 0 \<and> mu = real_of_int c
              \<and> calculate_stream_consistency now tid db lb = 1))"
proof -
  let ?rows = "filter (\<lambda>m. track_id m = tid \<and> now - timedelta lb \<le> timestamp m
                           \<and> spotify_streams m \<noteq> None) (track_metrics db)"
  let ?vals = "[v. Some v \<leftarrow> map spotify_streams ?rows, v \<noteq> 0]"
  have v: "truthy_streams ?rows = ?vals"
    by (rule truthy_streams_comprehension)
  have general: "calculate_stream_consistency now tid db lb =
         (if length ?rows < 30 then 0
          else if ?vals = [] then 0
          else if mean ?vals = 0 then 0
          else min 1 (max 0 (1 - std ?vals / mean ?vals)))"
    using consistency_unfold [of now tid db lb] unfolding Let_def v .
  have const: "30 \<le> length ?rows \<and> (\<forall>m \<in> set ?rows. spotify_streams m = Some c) \<and> 0 < c
            \<longrightarrow> std ?vals = 0 \<and> mean ?vals = real_of_int c
              \<and> calculate_stream_consistency now tid db lb = 1"
  proof (intro impI)
    assume h: "30 \<le> length ?rows \<and> (\<forall>m \<in> set ?rows. spotify_streams m = Some c) \<and> 0 < c"
    then have ts: "truthy_streams ?rows = replicate (length ?rows) c"
      using truthy_streams_const [of ?rows c] by simp
    have len: "length (truthy_streams ?rows) = length ?rows"
      unfolding ts by simp
    have ne': "truthy_streams ?rows \<noteq> []"
      using h len by (metis list.size(3) not_numeral_le_zero)
    have all': "\<forall>x \<in> set (truthy_streams ?rows). x = c"
      unfolding ts by simp
    have ne: "?vals \<noteq> []" using ne' unfolding v .
    have m: "mean ?vals = real_of_int c"
      using mean_const [OF ne' all'] unfolding v .
    have s: "std ?vals = 0"
      using std_const [OF ne' all'] unfolding v .
    have "calculate_stream_consistency now tid db lb = 1"
      using h ne m s unfolding general by simp
    then show "std ?vals = 0 \<and> mean ?vals = real_of_int c
        \<and> calculate_stream_consistency now tid db lb = 1"
      using m s by simp
  qed
  show ?thesis
    using general const unfolding Let_def mean_def std_def by blast
qed


lemma db_one_nonzero_rows:
  "filter (\<lambda>m. track_id m = ''t1'' \<and> day 100 - timedelta 180 \<le> timestamp m
                \<and> spotify_streams m \<noteq> None) (track_metrics db_one_nonzero)
     = track_metrics db_one_nonzero"
  by (simp add: db_one_nonzero_def stream_row_def day_def timedelta_def)

lemma db_one_nonzero_window:
  "filter (\<lambda>m. track_id m = ''t1'' \<and> day 100 - timedelta 180 \<le> timestamp m)
      (track_metrics db_one_nonzero)
     = track_metrics db_one_nonzero"
  by (simp add: db_one_nonzero_def stream_row_def day_def timedelta_def)

lemma db_one_nonzero_streams:
  "map spotify_streams (track_metrics db_one_nonzero) = replicate 29 (Some 0) @ [Some 100]"
  by (simp add: db_one_nonzero_def stream_row_def comp_def map_replicate_const)

lemma concat_replicate_Nil: "concat (replicate n []) = []"
  by (induction n) auto

lemma db_one_nonzero_vals:
  "[v. Some v \<leftarrow> map spotify_streams (track_metrics db_one_nonzero), v \<noteq> 0] = [100]"
  unfolding db_one_nonzero_streams by (simp add: concat_replicate_Nil)

lemma all_of_replicate:
  "[v. Some v \<leftarrow> replicate n (Some c), True] = replicate n c"
  by (induction n) simp_all

lemma db_one_nonzero_all:
  "[v. Some v \<leftarrow> map spotify_streams (track_metrics db_one_nonzero), True]
     = replicate 29 0 @ [100]"
  using all_of_replicate [of 29 "0::int"] unfolding db_one_nonzero_streams by simp

lemma spec_all_values:
  "consistency_as_specified (\<lambda>v. True) (day 100) ''t1'' db_one_nonzero 180 = 0"
proof -
  have "(10 / 3 :: real) \<le> sqrt (2900 / 9)"
    by (rule real_le_rsqrt) (simp add: power2_eq_square)
  then have "1 - sqrt (2900 / 9) / (10 / 3 :: real) \<le> 0"
    by (simp add: field_simps)
  then have z: "min 1 (max 0 (1 - sqrt (2900 / 9) / (10 / 3 :: real))) = 0"
    by simp
  let ?vals = "replicate 29 (0::int) @ [100]"
  have len: "length ?vals = 30" by simp
  have mu: "real_of_int (sum_list ?vals) / real (length ?vals) = 10 / 3"
    by (simp add: sum_list_replicate)
  have var: "(\<Sum>v\<leftarrow>?vals. (real_of_int v - 10 / 3)\<^sup>2) / real (length ?vals) = 2900 / 9"
    by (simp add: sum_list_replicate power2_eq_square)
  show ?thesis
    unfolding consistency_as_specified_def db_one_nonzero_window db_one_nonzero_all Let_def
    unfolding mu unfolding var
    using z len by simp
qed

lemma spec_nonzero_values:
  "consistency_as_specified (\<lambda>v. v \<noteq> 0) (day 100) ''t1'' db_one_nonzero 180 = 0"
  unfolding consistency_as_specified_def db_one_nonzero_window db_one_nonzero_vals Let_def
  by simp


lemma db_constant_filter:
  "filter (\<lambda>m. track_id m = ''t1'' \<and> day 100 - timedelta 180 \<le> timestamp m
                \<and> spotify_streams m \<noteq> None) (track_metrics db_constant)
     = track_metrics db_constant"
  by (simp add: db_constant_def stream_row_def day_def timedelta_def)

lemma db_short_filter:
  "length (filter (\<lambda>m. track_id m = ''t1'' \<and> day 100 - timedelta 180 \<le> timestamp m
                \<and> spotify_streams m \<noteq> None) (track_metrics db_short)) = 3"
  by (simp add: db_short_def stream_row_def day_def timedelta_def)

text \<open>The failing input of C8: of thirty non-null observations one is non-zero. The code
  returns 1, the score of a perfectly consistent history; the claim gives 0, whether the
  qualifying observations are the thirty non-null ones (their standard deviation exceeds
  their mean) or the single non-zero one (fewer than 30). The parts of the claim that
  hold: three observations give 0, thirty observations of 30000 streams give 1.\<close>

theorem stream_consistency_as_coded_witness:
  "length (track_metrics db_one_nonzero) = 30
   \<and> map spotify_streams (track_metrics db_one_nonzero) = replicate 29 (Some 0) @ [Some 100]
   \<and> calculate_stream_consistency (day 100) ''t1'' db_one_nonzero 180 = 1
   \<and> consistency_as_specified (\<lambda>v. True) (day 100) ''t1'' db_one_nonzero 180 = 0
   \<and> consistency_as_specified (\<lambda>v. v \<noteq> 0) (day 100) ''t1'' db_one_nonzero 180 = 0
   \<and> calculate_stream_consistency (day 100) ''t1'' db_short 180 = 0
   \<and> calculate_stream_consistency (day 100) ''t1'' db_constant 180 = 1"
proof -
  have len: "length (track_metrics db_one_nonzero) = 30"
    by (simp add: db_one_nonzero_def)
  have one: "calculate_stream_consistency (day 100) ''t1'' db_one_nonzero 180 = 1"
    using stream_consistency_as_coded [of "''t1''" "day 100" 180 db_one_nonzero 0]
    unfolding Let_def db_one_nonzero_rows db_one_nonzero_vals
    by (simp add: len)
  have short: "calculate_stream_consistency (day 100) ''t1'' db_short 180 = 0"
    using stream_consistency_as_coded [of "''t1''" "day 100" 180 db_short 0]
    unfolding Let_def db_short_filter by simp
  have cl: "30 \<le> length (track_metrics db_constant)"
    by (simp add: db_constant_def)
  have cv: "\<forall>m \<in> set (track_metrics db_constant). spotify_streams m = Some 30000"
    by (auto simp: db_constant_def stream_row_def)
  have const: "calculate_stream_consistency (day 100) ''t1'' db_constant 180 = 1"
    using stream_consistency_as_coded [of "''t1''" "day 100" 180 db_constant 30000] cl cv
    unfolding Let_def db_constant_filter
    by simp
  show ?thesis
    using len db_one_nonzero_streams one spec_all_values spec_nonzero_values short const
    by simp
qed

subsection \<open>Persisting a score\<close>

lemma db_scored_gate_t1: "TrendingScorer_check_thresholds (day 100) ''t1'' db_scored"
  by (simp add: TrendingScorer_check_thresholds_def recent_metric_def get_data_points_count_def
        db_scored_def metric_row_def day_def timedelta_def trending_min_tiktok_posts_7d_def
        trending_min_spotify_streams_7d_def trending_min_data_points_def)

lemma db_scored_gate_t2: "TrendingScorer_check_thresholds (day 100) ''t2'' db_scored"
  by (simp add: TrendingScorer_check_thresholds_def recent_metric_def get_data_points_count_def
        db_scored_def metric_row_def day_def timedelta_def trending_min_tiktok_posts_7d_def
        trending_min_spotify_streams_7d_def trending_min_data_points_def)

text \<open>
  Claim C1 (carry-forward), as the code has it. A row persisted by
  \<^verbatim>\<open>TrendingSelector.score_and_persist\<close> always has \<^verbatim>\<open>evergreen_score = None\<close>:
  the trending selector never reads the prior record. A row persisted by
  \<^verbatim>\<open>EvergreenSelector.score_and_persist\<close> carries the \<^verbatim>\<open>trending_score\<close> of the
  most recent prior record of the track, except that a prior score of 0.0 is dropped
  (the copy is guarded by a truthiness test). Either call appends exactly the new row.
\<close>

theorem trending_persist_drops_evergreen:
  "(TrendingSelector_score_and_persist now track tid db = (Some row, db')
      \<longrightarrow> evergreen_score row = None
        \<and> trending_score row = Some (fst (TrendingScorer_calculate_score now track tid db))
        \<and> track_scores db' = track_scores db @ [row])
   \<and> (EvergreenSelector_score_and_persist now track tid db = Inr (Some row', db'')
      \<longrightarrow> trending_score row' =
           (case first_desc computed_at (filter (\<lambda>s. score_track_id s = tid) (track_scores db)) of
              None \<Rightarrow> None
            | Some existing \<Rightarrow>
                if trending_score existing = Some 0 then None else trending_score existing)
        \<and> track_scores db'' = track_scores db @ [row'])"
proof -
  have t: "TrendingSelector_score_and_persist now track tid db = (Some row, db')
      \<longrightarrow> evergreen_score row = None
        \<and> trending_score row = Some (fst (TrendingScorer_calculate_score now track tid db))
        \<and> track_scores db' = track_scores db @ [row]"
    by (auto simp: TrendingSelector_score_and_persist_def Let_def split: prod.splits if_splits)
  have e: "EvergreenSelector_score_and_persist now track tid db = Inr (Some row', db'')
      \<longrightarrow> trending_score row' =
           (case first_desc computed_at (filter (\<lambda>s. score_track_id s = tid) (track_scores db)) of
              None \<Rightarrow> None
            | Some existing \<Rightarrow>
                if trending_score existing = Some 0 then None else trending_score existing)
        \<and> track_scores db'' = track_scores db @ [row']"
  proof -
    have tf: "\<And>x. truthy_float x \<longleftrightarrow> x \<noteq> None \<and> x \<noteq> Some 0"
      by (case_tac x) auto
    show ?thesis
      by (auto simp: EvergreenSelector_score_and_persist_def Let_def tf
            split: prod.splits if_splits sum.splits option.splits)
  qed
  show ?thesis using t e by blast
qed

lemma db_scored_persist:
  "\<exists>row db'. TrendingSelector_score_and_persist (day 100) track1 ''t1'' db_scored = (Some row, db')"
  by (simp add: TrendingSelector_score_and_persist_def trending_calculate_score_unfold
        db_scored_gate_t1 Let_def)

text \<open>The failing input of C1: the latest record of \<open>t1\<close> has an evergreen score of
  72.5, the trending call succeeds, and the new row has no evergreen score.\<close>

theorem trending_persist_drops_evergreen_witness:
  "first_desc computed_at (filter (\<lambda>s. score_track_id s = ''t1'') (track_scores db_scored))
     = Some prior_score
   \<and> evergreen_score prior_score = Some (725 / 10)
   \<and> (\<exists>row db'. TrendingSelector_score_and_persist (day 100) track1 ''t1'' db_scored = (Some row, db')
         \<and> evergreen_score row = None
         \<and> track_scores db' = [prior_score, row])"
proof -
  obtain row db' where
    r: "TrendingSelector_score_and_persist (day 100) track1 ''t1'' db_scored = (Some row, db')"
    using db_scored_persist by blast
  have "evergreen_score row = None \<and> track_scores db' = track_scores db_scored @ [row]"
    using trending_persist_drops_evergreen [of "day 100" track1 "''t1''" db_scored row db'] r
    by blast
  then show ?thesis
    using r by (simp add: db_scored_def prior_score_def)
qed

subsection \<open>Selecting tracks\<close>




lemma sort_desc_length: "length (sort_desc key xs) = length xs"
  by (simp add: sort_desc_def)




























subsection \<open>Batch runs\<close>

lemma batch_loop_append:
  "batch_loop sp (xs @ ys) db p s =
     (case batch_loop sp xs db p s of
        Inl x \<Rightarrow> Inl x
      | Inr (p', s', db') \<Rightarrow> batch_loop sp ys db' p' s')"
  by (induction xs arbitrary: db p s) (auto split: option.splits sum.splits prod.splits)

lemma commit_run_track_scores: "track_scores (commit_run db0 run db) = track_scores db"
  by (simp add: commit_run_def)

text \<open>
  Claim C6 (batch partial failure), as the code has it. \<^verbatim>\<open>run_discovery_batch\<close>
  first appends the audit record with status \<^verbatim>\<open>running\<close>, and the loop runs on the
  session that holds it. When the ids \<open>done\<close> have been processed, leaving the session
  \<open>db1\<close>, and \<^verbatim>\<open>score_and_persist\<close> raises \<open>e\<close> on the next id, the run ends with
  status \<^verbatim>\<open>failed\<close> and the error message \<^verbatim>\<open>str(e)\<close>; its
  \<^verbatim>\<open>tracks_processed\<close> and \<^verbatim>\<open>tracks_updated\<close> keep the value 0 they were created
  with, since the counters are written to the run on normal completion only; and the
  score rows of the final session are those of \<open>db1\<close>, the rows committed for the
  earlier tracks. When the loop completes with the counters \<open>processed\<close> and
  \<open>scored\<close>, the run has status \<^verbatim>\<open>completed\<close> and these two counts. The two
  selectors' batch functions are this function over their own
  \<^verbatim>\<open>score_and_persist\<close>.
\<close>

theorem batch_run_outcomes:
  "discovery_runs (begin_run rtype now db) = discovery_runs db @ [new_run rtype now]
   \<and> status (new_run rtype now) = ''running''
   \<and> (batch_loop sp done (begin_run rtype now db) 0 0 = Inr (processed, scored, db1)
       \<and> first_row (filter (\<lambda>t. id_track t = tid) (tracks db1)) = Some track
       \<and> sp track tid db1 = Inl e
      \<longrightarrow> status (fst (run_discovery_batch_of rtype sp now db (done @ tid # rest))) = ''failed''
        \<and> error_message (fst (run_discovery_batch_of rtype sp now db (done @ tid # rest)))
            = Some (str_error e)
        \<and> tracks_processed (fst (run_discovery_batch_of rtype sp now db (done @ tid # rest))) = 0
        \<and> tracks_updated (fst (run_discovery_batch_of rtype sp now db (done @ tid # rest))) = 0
        \<and> track_scores (snd (run_discovery_batch_of rtype sp now db (done @ tid # rest)))
            = track_scores db1
        \<and> snd (run_discovery_batch_of rtype sp now db (done @ tid # rest))
            = commit_run db (fst (run_discovery_batch_of rtype sp now db (done @ tid # rest))) db1)
   \<and> (batch_loop sp ids (begin_run rtype now db) 0 0 = Inr (processed, scored, db1)
      \<longrightarrow> status (fst (run_discovery_batch_of rtype sp now db ids)) = ''completed''
        \<and> error_message (fst (run_discovery_batch_of rtype sp now db ids)) = None
        \<and> tracks_processed (fst (run_discovery_batch_of rtype sp now db ids)) = processed
        \<and> tracks_updated (fst (run_discovery_batch_of rtype sp now db ids)) = scored
        \<and> track_scores (snd (run_discovery_batch_of rtype sp now db ids)) = track_scores db1
        \<and> snd (run_discovery_batch_of rtype sp now db ids)
            = commit_run db (fst (run_discovery_batch_of rtype sp now db ids)) db1)
   \<and> TrendingSelector_run_discovery_batch now db ids =
       run_discovery_batch_of ''trending''
         (\<lambda>track tid d. Inr (TrendingSelector_score_and_persist now track tid d)) now db ids
   \<and> EvergreenSelector_run_discovery_batch now db ids =
       run_discovery_batch_of ''evergreen'' (EvergreenSelector_score_and_persist now) now db ids"
proof -
  have a: "discovery_runs (begin_run rtype now db) = discovery_runs db @ [new_run rtype now]"
    by (simp add: begin_run_def)
  have b: "status (new_run rtype now) = ''running''"
    by (simp add: new_run_def)
  have f: "batch_loop sp done (begin_run rtype now db) 0 0 = Inr (processed, scored, db1)
       \<and> first_row (filter (\<lambda>t. id_track t = tid) (tracks db1)) = Some track
       \<and> sp track tid db1 = Inl e
      \<longrightarrow> status (fst (run_discovery_batch_of rtype sp now db (done @ tid # rest))) = ''failed''
        \<and> error_message (fst (run_discovery_batch_of rtype sp now db (done @ tid # rest)))
            = Some (str_error e)
        \<and> tracks_processed (fst (run_discovery_batch_of rtype sp now db (done @ tid # rest))) = 0
        \<and> tracks_updated (fst (run_discovery_batch_of rtype sp now db (done @ tid # rest))) = 0
        \<and> track_scores (snd (run_discovery_batch_of rtype sp now db (done @ tid # rest)))
            = track_scores db1
        \<and> snd (run_discovery_batch_of rtype sp now db (done @ tid # rest))
            = commit_run db (fst (run_discovery_batch_of rtype sp now db (done @ tid # rest))) db1"
  proof (intro impI)
    assume h: "batch_loop sp done (begin_run rtype now db) 0 0 = Inr (processed, scored, db1)
       \<and> first_row (filter (\<lambda>t. id_track t = tid) (tracks db1)) = Some track
       \<and> sp track tid db1 = Inl e"
    have l: "batch_loop sp (done @ tid # rest) (begin_run rtype now db) 0 0 = Inl (e, db1)"
      using h by (simp add: batch_loop_append)
    show "status (fst (run_discovery_batch_of rtype sp now db (done @ tid # rest))) = ''failed''
        \<and> error_message (fst (run_discovery_batch_of rtype sp now db (done @ tid # rest)))
            = Some (str_error e)
        \<and> tracks_processed (fst (run_discovery_batch_of rtype sp now db (done @ tid # rest))) = 0
        \<and> tracks_updated (fst (run_discovery_batch_of rtype sp now db (done @ tid # rest))) = 0
        \<and> track_scores (snd (run_discovery_batch_of rtype sp now db (done @ tid # rest)))
            = track_scores db1
        \<and> snd (run_discovery_batch_of rtype sp now db (done @ tid # rest))
            = commit_run db (fst (run_discovery_batch_of rtype sp now db (done @ tid # rest))) db1"
      by (simp add: run_discovery_batch_of_def l Let_def new_run_def commit_run_track_scores)
  qed
  have c: "batch_loop sp ids (begin_run rtype now db) 0 0 = Inr (processed, scored, db1)
      \<longrightarrow> status (fst (run_discovery_batch_of rtype sp now db ids)) = ''completed''
        \<and> error_message (fst (run_discovery_batch_of rtype sp now db ids)) = None
        \<and> tracks_processed (fst (run_discovery_batch_of rtype sp now db ids)) = processed
        \<and> tracks_updated (fst (run_discovery_batch_of rtype sp now db ids)) = scored
        \<and> track_scores (snd (run_discovery_batch_of rtype sp now db ids)) = track_scores db1
        \<and> snd (run_discovery_batch_of rtype sp now db ids)
            = commit_run db (fst (run_discovery_batch_of rtype sp now db ids)) db1"
    by (simp add: run_discovery_batch_of_def Let_def new_run_def commit_run_track_scores)
  have t: "TrendingSelector_run_discovery_batch now db ids =
       run_discovery_batch_of ''trending''
         (\<lambda>track tid d. Inr (TrendingSelector_score_and_persist now track tid d)) now db ids"
    by (simp add: TrendingSelector_run_discovery_batch_def)
  have g: "EvergreenSelector_run_discovery_batch now db ids =
       run_discovery_batch_of ''evergreen'' (EvergreenSelector_score_and_persist now) now db ids"
    by (simp add: EvergreenSelector_run_discovery_batch_def)
  show ?thesis by (intro conjI a b f c t g)
qed

lemma db_batch_first:
  "batch_loop failing_persist [''t1''] (begin_run ''trending'' (day 100) db_batch) 0 0
     = Inr (1, 1, (begin_run ''trending'' (day 100) db_batch)\<lparr>track_scores := [toy_score ''t1'']\<rparr>)"
  by (simp add: failing_persist_def begin_run_def db_batch_def)

lemma db_batch_fails:
  "batch_loop failing_persist [''t1'', ''t2'', ''t3''] (begin_run ''trending'' (day 100) db_batch) 0 0
     = Inl (Unhandled ''store unavailable'',
            (begin_run ''trending'' (day 100) db_batch)\<lparr>track_scores := [toy_score ''t1'']\<rparr>)"
  by (simp add: failing_persist_def begin_run_def db_batch_def)

text \<open>The claim as stated fails on a batch of three tracks whose second raises: two
  tracks were attempted, and \<^verbatim>\<open>tracks_processed\<close> of the failed run is 0.\<close>

theorem batch_failure_counts_counterexample:
  "status (fst (run_discovery_batch_of ''trending'' failing_persist (day 100) db_batch
                  [''t1'', ''t2'', ''t3''])) = ''failed''
   \<and> tracks_processed (fst (run_discovery_batch_of ''trending'' failing_persist (day 100) db_batch
                  [''t1'', ''t2'', ''t3''])) = 0
   \<and> tracks_processed (fst (run_discovery_batch_of ''trending'' failing_persist (day 100) db_batch
                  [''t1'', ''t2'', ''t3''])) \<noteq> 2"
  by (simp only: run_discovery_batch_of_def db_batch_fails) (simp add: new_run_def Let_def)

text \<open>The same batch: the run fails with the message of the exception and keeps the
  score committed for the first track; the batch of the first track alone completes
  with both counts 1.\<close>

theorem batch_run_outcomes_witness:
  "batch_loop failing_persist [''t1''] (begin_run ''trending'' (day 100) db_batch) 0 0
     = Inr (1, 1, (begin_run ''trending'' (day 100) db_batch)\<lparr>track_scores := [toy_score ''t1'']\<rparr>)
   \<and> status (fst (run_discovery_batch_of ''trending'' failing_persist (day 100) db_batch
                  [''t1'', ''t2'', ''t3''])) = ''failed''
   \<and> error_message (fst (run_discovery_batch_of ''trending'' failing_persist (day 100) db_batch
                  [''t1'', ''t2'', ''t3''])) = Some ''store unavailable''
   \<and> track_scores (snd (run_discovery_batch_of ''trending'' failing_persist (day 100) db_batch
                  [''t1'', ''t2'', ''t3''])) = [toy_score ''t1'']
   \<and> status (fst (run_discovery_batch_of ''trending'' failing_persist (day 100) db_batch [''t1'']))
       = ''completed''
   \<and> tracks_processed (fst (run_discovery_batch_of ''trending'' failing_persist (day 100) db_batch
                  [''t1''])) = 1
   \<and> tracks_updated (fst (run_discovery_batch_of ''trending'' failing_persist (day 100) db_batch
                  [''t1''])) = 1"
proof -
  let ?db1 = "(begin_run ''trending'' (day 100) db_batch)\<lparr>track_scores := [toy_score ''t1'']\<rparr>"
  let ?t2 = "\<lparr>id_track = ''t2'', title = ''B'', artist_name = ''X'', first_discovered = day 1\<rparr>"
  have t: "first_row (filter (\<lambda>t. id_track t = ''t2'') (tracks ?db1)) = Some ?t2"
    by (simp add: begin_run_def db_batch_def)
  have e: "failing_persist ?t2 ''t2'' ?db1 = Inl (Unhandled ''store unavailable'')"
    by (simp add: failing_persist_def)
  show ?thesis
    using batch_run_outcomes [of "''trending''" "day 100" db_batch failing_persist "[''t1'']"
        1 1 ?db1 "''t2''" ?t2 "Unhandled ''store unavailable''" "[''t3'']" "[''t1'']"]
      db_batch_first t e
    by (simp del: batch_loop.simps add: commit_run_track_scores)
qed

end
